theory Spec2Isabelle
  imports Complex_Main "HOL-Library.AList"
begin

section \<open>JavaScript strings\<close>

text \<open>
  A JavaScript string is a sequence of UTF-16 code units, and \<open>length\<close>, \<open>slice\<close>,
  \<open>startsWith\<close> and the regular expressions of the source (none has the \<open>u\<close> flag) all
  work on code units. A string is therefore a list of code units, each a natural number;
  \<open>js ''abc''\<close> is the string of an ASCII literal.
\<close>

type_synonym jsstring = "nat list"

abbreviation js :: "string \<Rightarrow> jsstring" where
  "js s \<equiv> map of_char s"

text \<open>ECMAScript \<open>LineTerminator\<close>: LF, CR, U+2028, U+2029. The dot of a regular
  expression matches every code unit but these; \<open>^\<close> and \<open>$\<close> with the \<open>m\<close> flag look
  for them.\<close>

definition LineTerminator :: "nat \<Rightarrow> bool" where
  "LineTerminator c \<longleftrightarrow> c = 10 \<or> c = 13 \<or> c = 8232 \<or> c = 8233"

text \<open>What \<open>\s\<close> and \<open>trim\<close> take for white space: \<open>WhiteSpace\<close> (TAB, VT, FF, SP, NBSP,
  U+FEFF and the space separators U+1680, U+2000..U+200A, U+202F, U+205F, U+3000) and
  \<open>LineTerminator\<close>.\<close>

definition WhiteSpace :: "nat \<Rightarrow> bool" where
  "WhiteSpace c \<longleftrightarrow>
     c = 9 \<or> c = 11 \<or> c = 12 \<or> c = 32 \<or> c = 160 \<or> c = 65279 \<or> c = 5760 \<or>
     (8192 \<le> c \<and> c \<le> 8202) \<or> c = 8239 \<or> c = 8287 \<or> c = 12288 \<or> LineTerminator c"

text \<open>\<open>\d\<close> is \<open>[0-9]\<close> and \<open>\w\<close> is \<open>[A-Za-z0-9_]\<close>.\<close>

definition Digit :: "nat \<Rightarrow> bool" where
  "Digit c \<longleftrightarrow> 48 \<le> c \<and> c \<le> 57"

definition WordChar :: "nat \<Rightarrow> bool" where
  "WordChar c \<longleftrightarrow> (97 \<le> c \<and> c \<le> 122) \<or> (65 \<le> c \<and> c \<le> 90) \<or> Digit c \<or> c = 95"

text \<open>
  \<open>Canonicalize\<close> of a regular expression with the \<open>i\<close> flag and without the \<open>u\<close> flag
  upper-cases a code unit, and leaves a code unit from 128 on alone when its upper case
  would be ASCII. Every pattern of the source that has the \<open>i\<close> flag is made of ASCII
  characters, so only the ASCII part matters: a code unit from 128 on is left as it is
  here, and as in ECMAScript it then equals no canonicalized ASCII character.
\<close>

definition Canonicalize :: "nat \<Rightarrow> nat" where
  "Canonicalize c = (if 97 \<le> c \<and> c \<le> 122 then c - 32 else c)"

definition startsWith :: "jsstring \<Rightarrow> jsstring \<Rightarrow> bool" where
  "startsWith s p \<longleftrightarrow> take (length p) s = p"

definition endsWith :: "jsstring \<Rightarrow> jsstring \<Rightarrow> bool" where
  "endsWith s p \<longleftrightarrow> take (length p) (rev s) = rev p"

definition trim :: "jsstring \<Rightarrow> jsstring" where
  "trim s = rev (dropWhile WhiteSpace (rev (dropWhile WhiteSpace s)))"

text \<open>\<open>s.split(c)\<close> for a separator of one code unit; the result is never empty.\<close>

fun split_on :: "nat \<Rightarrow> jsstring \<Rightarrow> jsstring list" where
  "split_on c [] = [[]]"
| "split_on c (x # xs) =
     (if x = c then [] # split_on c xs
      else (case split_on c xs of [] \<Rightarrow> [[x]] | l # ls \<Rightarrow> (x # l) # ls))"

text \<open>\<open>xs.join(sep)\<close>.\<close>

fun join :: "jsstring \<Rightarrow> jsstring list \<Rightarrow> jsstring" where
  "join sep [] = []"
| "join sep [x] = x"
| "join sep (x # y # ys) = x @ sep @ join sep (y # ys)"

text \<open>
  The regular expressions of the source are matched from an index of the string on. The
  functions below take the rest of the string from that index, and where the pattern has
  an assertion that looks back (\<open>\b\<close>, \<open>^\<close>), what it needs to know of the code unit
  before the index.

  A literal of a pattern at the head of \<open>rest\<close>, with or without the \<open>i\<close> flag.
\<close>

definition litAt :: "bool \<Rightarrow> jsstring \<Rightarrow> jsstring \<Rightarrow> bool" where
  "litAt ignoreCase rest lit \<longleftrightarrow>
     (let t = take (length lit) rest
      in if ignoreCase then map Canonicalize t = map Canonicalize lit else t = lit)"

text \<open>The assertion \<open>\b\<close>: exactly one of the code unit before the index and the code
  unit at the index is a word character (outside the string there is none).
  \<open>prevIsWord\<close> says whether the one before is.\<close>

definition wordBoundary :: "bool \<Rightarrow> jsstring \<Rightarrow> bool" where
  "wordBoundary prevIsWord rest \<longleftrightarrow>
     prevIsWord \<noteq> (case rest of [] \<Rightarrow> False | c # _ \<Rightarrow> WordChar c)"

text \<open>Whether the code unit before the index is a word character, \<open>n\<close> code units
  further on in \<open>rest\<close>.\<close>

definition wordAfter :: "bool \<Rightarrow> jsstring \<Rightarrow> nat \<Rightarrow> bool" where
  "wordAfter prevIsWord rest n =
     (if n = 0 \<or> rest = [] then prevIsWord else WordChar (last (take n rest)))"

text \<open>\<open>/\b(a1|...|an)\b/\<close> matched at the head of \<open>rest\<close>: the length of the match, the
  first alternative in the order of the pattern that fits being taken.\<close>

definition wordsMatch :: "bool \<Rightarrow> jsstring list \<Rightarrow> bool \<Rightarrow> jsstring \<Rightarrow> nat option" where
  "wordsMatch ignoreCase alts prevIsWord rest =
     (if wordBoundary prevIsWord rest
      then (case filter (\<lambda>a. litAt ignoreCase rest a \<and>
                              wordBoundary (wordAfter prevIsWord rest (length a))
                                (drop (length a) rest)) alts of
              [] \<Rightarrow> None | a # _ \<Rightarrow> Some (length a))
      else None)"

text \<open>\<open>/\b(a1|...|an)\b/.test(s)\<close>: a match at some index, the end of the string
  included.\<close>

fun testWordsFrom :: "bool \<Rightarrow> jsstring list \<Rightarrow> bool \<Rightarrow> jsstring \<Rightarrow> bool" where
  "testWordsFrom ignoreCase alts prevIsWord [] \<longleftrightarrow>
     wordsMatch ignoreCase alts prevIsWord [] \<noteq> None"
| "testWordsFrom ignoreCase alts prevIsWord (c # cs) \<longleftrightarrow>
     wordsMatch ignoreCase alts prevIsWord (c # cs) \<noteq> None \<or>
     testWordsFrom ignoreCase alts (WordChar c) cs"

definition testWords :: "bool \<Rightarrow> jsstring list \<Rightarrow> jsstring \<Rightarrow> bool" where
  "testWords ignoreCase alts s = testWordsFrom ignoreCase alts False s"

text \<open>\<open>/(a1|...|an)/.test(s)\<close> for literal alternatives: one of them occurs in \<open>s\<close>.\<close>

fun testContains :: "bool \<Rightarrow> jsstring list \<Rightarrow> jsstring \<Rightarrow> bool" where
  "testContains ignoreCase alts [] \<longleftrightarrow> list_ex (litAt ignoreCase []) alts"
| "testContains ignoreCase alts (c # cs) \<longleftrightarrow>
     list_ex (litAt ignoreCase (c # cs)) alts \<or> testContains ignoreCase alts cs"

text \<open>
  \<open>s.match(/\b(a1|...|an)\b/g)\<close> counted: the matches are looked for from left to
  right, each search starting where the match before ended (one further on when that match
  was empty).
\<close>

function countWordsFrom :: "bool \<Rightarrow> jsstring list \<Rightarrow> bool \<Rightarrow> jsstring \<Rightarrow> nat" where
  "countWordsFrom ignoreCase alts prevIsWord rest =
     (case wordsMatch ignoreCase alts prevIsWord rest of
        None \<Rightarrow>
          (case rest of
             [] \<Rightarrow> 0
           | c # cs \<Rightarrow> countWordsFrom ignoreCase alts (WordChar c) cs)
      | Some n \<Rightarrow>
          1 + (if n = 0 \<or> length rest < n
               then (case rest of
                       [] \<Rightarrow> 0
                     | c # cs \<Rightarrow> countWordsFrom ignoreCase alts (WordChar c) cs)
               else countWordsFrom ignoreCase alts (wordAfter prevIsWord rest n) (drop n rest)))"
  by pat_completeness auto
termination
  by (relation "measure (\<lambda>(ic, alts, prev, rest). length rest)") auto

definition countWords :: "bool \<Rightarrow> jsstring list \<Rightarrow> jsstring \<Rightarrow> nat" where
  "countWords ignoreCase alts s = countWordsFrom ignoreCase alts False s"

text \<open>The decimal digits of a natural number, and of an integer with its sign: the text
  of a count, and of any integer below \<open>2^53\<close>, in a template literal.\<close>

fun showNat :: "nat \<Rightarrow> jsstring" where
  "showNat n = (if n < 10 then [48 + n] else showNat (n div 10) @ [48 + n mod 10])"

definition showInt :: "int \<Rightarrow> jsstring" where
  "showInt i = (if i < 0 then 45 # showNat (nat (- i)) else showNat (nat i))"

section \<open>JavaScript numbers\<close>

text \<open>
  A number is an IEEE 754 double: a finite value, an infinity or \<open>NaN\<close>. \<open>Fin x\<close> is the
  double of the value \<open>x\<close>; the two zeros are not told apart, since nothing here divides
  by one.
\<close>

datatype number = Fin real | PosInfinity | NegInfinity | NaN

text \<open>\<open>a <= b\<close> and \<open>a < b\<close>: false as soon as an operand is \<open>NaN\<close>.\<close>

fun numLe :: "number \<Rightarrow> number \<Rightarrow> bool" where
  "numLe NaN _ = False"
| "numLe _ NaN = False"
| "numLe NegInfinity _ = True"
| "numLe _ PosInfinity = True"
| "numLe (Fin a) (Fin b) = (a \<le> b)"
| "numLe _ _ = False"

definition numLt :: "number \<Rightarrow> number \<Rightarrow> bool" where
  "numLt a b \<longleftrightarrow> numLe a b \<and> a \<noteq> b"

text \<open>
  The result of an arithmetic operation is the double nearest to the exact result, a tie
  going to the double with the even significand, and an infinity when that rounding
  reaches \<open>2^1024\<close>. The finite doubles are the numbers \<open>m * 2^e\<close> and their negatives,
  for the integers \<open>m < 2^53\<close> and \<open>-1074 \<le> e \<le> 971\<close>.

  \<open>bitLength n\<close> is the number of binary digits of \<open>n\<close>. \<open>roundSignificand y\<close> is, for
  \<open>y \<ge> 0\<close>, the nearest integer that has at most 53 significant binary digits: below
  \<open>2^53\<close> these are all the integers, and from there on the multiples of \<open>2^e\<close> where
  \<open>e\<close> is the number of digits over 53.

  \<open>roundDouble x\<close> is the double for the exact result \<open>x\<close>. An integer is rounded as it
  is. Another value is scaled by \<open>2^1074\<close> first, which turns the doubles into the
  integers of at most 53 significant digits, and scaled back.
\<close>

fun bitLength :: "nat \<Rightarrow> nat" where
  "bitLength n = (if n = 0 then 0 else Suc (bitLength (n div 2)))"

definition roundSignificand :: "real \<Rightarrow> int" where
  "roundSignificand y =
     (let e = (if y < 2 ^ 53 then 0 else bitLength (nat \<lfloor>y\<rfloor>) - 53);
          q = \<lfloor>y / 2 ^ e\<rfloor>;
          f = y / 2 ^ e - of_int q;
          m = (if f < 1 / 2 \<or> (f = 1 / 2 \<and> even q) then q else q + 1)
      in m * 2 ^ e)"

definition numNeg :: "number \<Rightarrow> number" where
  "numNeg x =
     (case x of
        Fin a \<Rightarrow> Fin (- a)
      | PosInfinity \<Rightarrow> NegInfinity
      | NegInfinity \<Rightarrow> PosInfinity
      | NaN \<Rightarrow> NaN)"

definition roundDouble :: "real \<Rightarrow> number" where
  "roundDouble x =
     (let a = \<bar>x\<bar>;
          r = (if of_int \<lfloor>a\<rfloor> = a
               then (let v = roundSignificand a
                     in if v \<ge> 2 ^ 1024 then PosInfinity else Fin (of_int v))
               else (let v = roundSignificand (a * 2 ^ 1074)
                     in if v \<ge> 2 ^ 2098 then PosInfinity else Fin (of_int v / 2 ^ 1074)))
      in if x < 0 then numNeg r else r)"

text \<open>\<open>a + b\<close> and \<open>a - b\<close> on numbers.\<close>

fun numAdd :: "number \<Rightarrow> number \<Rightarrow> number" where
  "numAdd NaN _ = NaN"
| "numAdd _ NaN = NaN"
| "numAdd PosInfinity NegInfinity = NaN"
| "numAdd NegInfinity PosInfinity = NaN"
| "numAdd PosInfinity _ = PosInfinity"
| "numAdd _ PosInfinity = PosInfinity"
| "numAdd NegInfinity _ = NegInfinity"
| "numAdd _ NegInfinity = NegInfinity"
| "numAdd (Fin a) (Fin b) = roundDouble (a + b)"

definition numSub :: "number \<Rightarrow> number \<Rightarrow> number" where
  "numSub a b = numAdd a (numNeg b)"

text \<open>
  \<open>parseInt(ds, 10)\<close> on a string of decimal digits: the double nearest to the integer
  that the digits spell, so the integer itself up to \<open>2^53\<close>, a rounded value from there
  on and \<open>Infinity\<close> for a run of some 309 digits or more. (ECMAScript lets an
  implementation read the digits after the twentieth as zeros; V8, which runs the
  extension, rounds the integer that all the digits spell.)
\<close>

definition parseInt :: "jsstring \<Rightarrow> number" where
  "parseInt ds = roundDouble (real (foldl (\<lambda>a d. 10 * a + (d - 48)) 0 ds))"

text \<open>The numbers that the diff engine computes with: the natural numbers among the
  doubles, and \<open>Infinity\<close>.\<close>

definition naturalOrInfinity :: "number \<Rightarrow> bool" where
  "naturalOrInfinity x \<longleftrightarrow>
     (case x of
        Fin a \<Rightarrow> 0 \<le> a \<and> of_int \<lfloor>a\<rfloor> = a
      | PosInfinity \<Rightarrow> True
      | _ \<Rightarrow> False)"

section \<open>The diff engine\<close>

datatype ChunkType = addition | deletion | modification

record ChunkMetadata =
  containsFunction :: bool
  containsImportChange :: bool
  containsAuthLogic :: bool

record DiffChunk =
  filePath :: jsstring
  type :: ChunkType
  startLine :: number
  endLine :: number
  content :: jsstring
  metadata :: ChunkMetadata

text \<open>
  \<open>diff.split(/^diff --git /m)\<close>. The search goes from left to right; a match needs the
  start of the string or a line terminator just before it. After a match the search goes
  on behind it, where the code unit before is the blank that ends the pattern.
  \<open>atLineStart\<close> says whether \<open>^\<close> holds at the head of \<open>rest\<close>, and \<open>piece\<close> is what
  has been read since the last match.
\<close>

function splitFileBlocks :: "bool \<Rightarrow> jsstring \<Rightarrow> jsstring \<Rightarrow> jsstring list" where
  "splitFileBlocks atLineStart piece rest =
     (if atLineStart \<and> startsWith rest (js ''diff --git '')
      then piece # splitFileBlocks False [] (drop 11 rest)
      else (case rest of
              [] \<Rightarrow> [piece]
            | c # cs \<Rightarrow> splitFileBlocks (LineTerminator c) (piece @ [c]) cs))"
  by pat_completeness auto
termination
proof (relation "measure (\<lambda>(a, p, r). length r)", goal_cases)
  case 1
  show ?case by simp
next
  case 2
  then show ?case
    by (auto simp: startsWith_def intro!: diff_less)
next
  case 3
  then show ?case by simp
qed

text \<open>\<open>line.match(/b\/(.+)$/)\<close>: the first index where \<open>b/\<close> stands and is followed, up
  to the end of the string, by one code unit or more, none a line terminator. The result
  is the group.\<close>

fun matchFilePath :: "jsstring \<Rightarrow> jsstring option" where
  "matchFilePath [] = None"
| "matchFilePath (c # cs) =
     (if startsWith (c # cs) (js ''b/'') \<and> drop 2 (c # cs) \<noteq> [] \<and>
         list_all (\<lambda>x. \<not> LineTerminator x) (drop 2 (c # cs))
      then Some (drop 2 (c # cs))
      else matchFilePath cs)"

text \<open>
  \<open>line.match(/^@@ -(\d+)(?:,\d+)? \+(\d+)(?:,(\d+))? @@/)\<close>, giving the second group.
  Each \<open>\d+\<close> is followed by a code unit that is no digit, and each optional group
  starts with a comma where the pattern goes on with a blank, so the greedy reading is the
  only one.
\<close>

definition dropLit :: "jsstring \<Rightarrow> jsstring \<Rightarrow> jsstring option" where
  "dropLit lit s = (if startsWith s lit then Some (drop (length lit) s) else None)"

definition dropDigits :: "jsstring \<Rightarrow> (jsstring \<times> jsstring) option" where
  "dropDigits s =
     (if takeWhile Digit s = [] then None else Some (takeWhile Digit s, dropWhile Digit s))"

definition dropCommaDigits :: "jsstring \<Rightarrow> jsstring" where
  "dropCommaDigits s =
     (case dropLit (js '','') s of
        None \<Rightarrow> s
      | Some t \<Rightarrow> (case dropDigits t of None \<Rightarrow> s | Some (ds, u) \<Rightarrow> u))"

definition hunkPattern :: "jsstring \<Rightarrow> jsstring option" where
  "hunkPattern line =
     (case dropLit (js ''@@ -'') line of
        None \<Rightarrow> None
      | Some r1 \<Rightarrow>
     (case dropDigits r1 of
        None \<Rightarrow> None
      | Some (g1, r2) \<Rightarrow>
     (case dropLit (js '' +'') (dropCommaDigits r2) of
        None \<Rightarrow> None
      | Some r3 \<Rightarrow>
     (case dropDigits r3 of
        None \<Rightarrow> None
      | Some (g2, r4) \<Rightarrow>
     (case dropLit (js '' @@'') (dropCommaDigits r4) of
        None \<Rightarrow> None
      | Some r5 \<Rightarrow> Some g2)))))"

text \<open>\<open>/\b(function|def |func |=>|async |class )\b/.test(content)\<close>\<close>

definition testFunction :: "jsstring \<Rightarrow> bool" where
  "testFunction s =
     testWords False
       [js ''function'', js ''def '', js ''func '', js ''=>'', js ''async '', js ''class ''] s"

text \<open>
  \<open>/^[+-]\s*(import|require|from)\b/.test(content)\<close>. The pattern has no \<open>m\<close> flag, so
  \<open>^\<close> holds at index 0 only. \<open>\s*\<close> takes all the white space there is: a keyword
  starts with none.
\<close>

definition testImportChange :: "jsstring \<Rightarrow> bool" where
  "testImportChange s \<longleftrightarrow>
     (case s of
        [] \<Rightarrow> False
      | c # cs \<Rightarrow>
          (c = 43 \<or> c = 45) \<and>
          (let t = dropWhile WhiteSpace cs
           in list_ex (\<lambda>k. startsWith t k \<and>
                            (case drop (length k) t of [] \<Rightarrow> True | d # _ \<Rightarrow> \<not> WordChar d))
                [js ''import'', js ''require'', js ''from'']))"

text \<open>\<open>/\b(auth|token|password|credential|secret|jwt|oauth|session|login|logout)\b/i.test(content)\<close>\<close>

definition testAuthLogic :: "jsstring \<Rightarrow> bool" where
  "testAuthLogic s =
     testWords True
       [js ''auth'', js ''token'', js ''password'', js ''credential'', js ''secret'', js ''jwt'',
        js ''oauth'', js ''session'', js ''login'', js ''logout''] s"

text \<open>The variables of the loop over the lines of one file block, and the chunks pushed
  so far.\<close>

record HunkState =
  currentHunkLines :: "jsstring list"
  currentStartLine :: number
  hasAdditions :: bool
  hasDeletions :: bool
  chunks :: "DiffChunk list"

definition flushHunk :: "jsstring \<Rightarrow> HunkState \<Rightarrow> HunkState" where
  "flushHunk path st =
     (if length (currentHunkLines st) = 0 then st
      else
        let content = join [10] (currentHunkLines st);
            ty = (if hasAdditions st \<and> hasDeletions st then modification
                  else if hasAdditions st then addition
                  else deletion)
        in st\<lparr>chunks := chunks st @
                 [\<lparr>filePath = path,
                   type = ty,
                   startLine = currentStartLine st,
                   endLine = numSub (numAdd (currentStartLine st)
                                       (Fin (real (length (currentHunkLines st))))) (Fin 1),
                   content = content,
                   metadata = \<lparr>containsFunction = testFunction content,
                               containsImportChange = testImportChange content,
                               containsAuthLogic = testAuthLogic content\<rparr>\<rparr>],
               currentHunkLines := [],
               hasAdditions := False,
               hasDeletions := False\<rparr>)"

text \<open>One turn of \<open>for (const line of lines)\<close>.\<close>

definition parseLine :: "jsstring \<Rightarrow> HunkState \<Rightarrow> jsstring \<Rightarrow> HunkState" where
  "parseLine path st line =
     (case hunkPattern line of
        Some g2 \<Rightarrow> (flushHunk path st)\<lparr>currentStartLine := parseInt g2\<rparr>
      | None \<Rightarrow>
          if numLt (Fin 0) (currentStartLine st)
          then
            let st1 = st\<lparr>currentHunkLines := currentHunkLines st @ [line]\<rparr>
            in if startsWith line (js ''+'') \<and> \<not> startsWith line (js ''+++'')
               then st1\<lparr>hasAdditions := True\<rparr>
               else if startsWith line (js ''-'') \<and> \<not> startsWith line (js ''---'')
               then st1\<lparr>hasDeletions := True\<rparr>
               else st1
          else st)"

text \<open>One turn of \<open>for (const block of fileBlocks)\<close>: the chunks before it and after
  it. \<open>split\<close> gives one line at least, so \<open>lines[0]\<close> is there.\<close>

definition parseBlock :: "DiffChunk list \<Rightarrow> jsstring \<Rightarrow> DiffChunk list" where
  "parseBlock cs block =
     (let lines = split_on 10 block
      in case matchFilePath (hd lines) of
           None \<Rightarrow> cs
         | Some m \<Rightarrow>
             let path = trim m;
                 st0 = \<lparr>currentHunkLines = [], currentStartLine = Fin 0, hasAdditions = False,
                        hasDeletions = False, chunks = cs\<rparr>
             in chunks (flushHunk path (foldl (parseLine path) st0 lines)))"

definition parse :: "jsstring \<Rightarrow> DiffChunk list" where
  "parse diff =
     (if diff = [] \<or> trim diff = [] then []
      else foldl parseBlock [] (filter (\<lambda>b. b \<noteq> []) (splitFileBlocks True [] diff)))"

text \<open>The two tests of the loop on a line: \<open>line.startsWith('+') && !line.startsWith('+++')\<close>
  and the same with \<open>-\<close>.\<close>

definition addedLine :: "jsstring \<Rightarrow> bool" where
  "addedLine l \<longleftrightarrow> startsWith l (js ''+'') \<and> \<not> startsWith l (js ''+++'')"

definition removedLine :: "jsstring \<Rightarrow> bool" where
  "removedLine l \<longleftrightarrow> startsWith l (js ''-'') \<and> \<not> startsWith l (js ''---'')"

text \<open>
  What holds of every chunk that \<open>flushHunk\<close> pushes, in terms of the lines of its
  content, and the invariant of the loop over the lines: no line holds a line feed, the
  start line is a natural number or \<open>Infinity\<close>, the two flags say what the lines
  gathered so far are, and the chunks pushed so far are as described.
\<close>

definition chunkInv :: "DiffChunk \<Rightarrow> bool" where
  "chunkInv c \<longleftrightarrow>
     (let ls = split_on 10 (content c)
      in naturalOrInfinity (startLine c) \<and>
         endLine c = numSub (numAdd (startLine c) (Fin (real (length ls)))) (Fin 1) \<and>
         type c = (if list_ex addedLine ls \<and> list_ex removedLine ls then modification
                   else if list_ex addedLine ls then addition else deletion) \<and>
         metadata c = \<lparr>containsFunction = testFunction (content c),
                        containsImportChange = testImportChange (content c),
                        containsAuthLogic = testAuthLogic (content c)\<rparr>)"

definition hunkInv :: "HunkState \<Rightarrow> bool" where
  "hunkInv st \<longleftrightarrow>
     list_all (\<lambda>l. 10 \<notin> set l) (currentHunkLines st) \<and>
     naturalOrInfinity (currentStartLine st) \<and>
     hasAdditions st = list_ex addedLine (currentHunkLines st) \<and>
     hasDeletions st = list_ex removedLine (currentHunkLines st) \<and>
     list_all chunkInv (chunks st)"

section \<open>The risk analyzer\<close>

datatype RiskLevel = low | medium | high

record RiskReport =
  filePath :: jsstring
  score :: int
  level :: RiskLevel
  reasons :: "jsstring list"

text \<open>
  \<open>fileMap\<close> is a \<open>Map\<close> from path to chunks. A \<open>Map\<close> is read in the order in which its
  keys were first set, so it is an association list, and \<open>set\<close> on a key that is there
  leaves the key where it is.
\<close>

definition groupByFile :: "DiffChunk list \<Rightarrow> (jsstring \<times> DiffChunk list) list" where
  "groupByFile cs =
     foldl (\<lambda>fileMap chunk.
              let existing = (case map_of fileMap (DiffChunk.filePath chunk) of
                                None \<Rightarrow> [] | Some e \<Rightarrow> e)
              in AList.update (DiffChunk.filePath chunk) (existing @ [chunk]) fileMap)
       [] cs"

text \<open>\<open>/\/(auth|authentication|authorization|login|oauth)\//i.test(filePath)\<close>\<close>

definition testAuthDirectory :: "jsstring \<Rightarrow> bool" where
  "testAuthDirectory p =
     testContains True
       [js ''/auth/'', js ''/authentication/'', js ''/authorization/'', js ''/login/'',
        js ''/oauth/''] p"

text \<open>\<open>/\.(env|secret|key|pem|cert)(\.|$)/i.test(filePath)\<close>: after the extension comes a
  dot or the end of the path.\<close>

fun testSensitiveFile :: "jsstring \<Rightarrow> bool" where
  "testSensitiveFile [] \<longleftrightarrow> False"
| "testSensitiveFile (c # cs) \<longleftrightarrow>
     list_ex (\<lambda>a. litAt True (c # cs) a \<and>
                   (case drop (length a) (c # cs) of [] \<Rightarrow> True | d # _ \<Rightarrow> d = 46))
       [js ''.env'', js ''.secret'', js ''.key'', js ''.pem'', js ''.cert''] \<or>
     testSensitiveFile cs"

text \<open>\<open>/\/(middleware|interceptor)\//i.test(filePath)\<close>\<close>

definition testMiddleware :: "jsstring \<Rightarrow> bool" where
  "testMiddleware p = testContains True [js ''/middleware/'', js ''/interceptor/''] p"

text \<open>\<open>/(package\.json|package-lock\.json|yarn\.lock|requirements\.txt|Gemfile|go\.sum|pom\.xml)/i.test(filePath)\<close>\<close>

definition testDependencyFile :: "jsstring \<Rightarrow> bool" where
  "testDependencyFile p =
     testContains True
       [js ''package.json'', js ''package-lock.json'', js ''yarn.lock'', js ''requirements.txt'',
        js ''Gemfile'', js ''go.sum'', js ''pom.xml''] p"

text \<open>\<open>/\/(migrations?|schema|model)\//i.test(filePath) || /\.(sql|prisma|graphql)$/.test(filePath)\<close>\<close>

definition testSchema :: "jsstring \<Rightarrow> bool" where
  "testSchema p \<longleftrightarrow>
     testContains True [js ''/migrations/'', js ''/migration/'', js ''/schema/'', js ''/model/''] p \<or>
     list_ex (endsWith p) [js ''.sql'', js ''.prisma'', js ''.graphql'']"

text \<open>\<open>(allContent.match(/\b(auth|token|password|credential|secret|jwt|oauth|session)\b/gi) ?? []).length\<close>\<close>

definition countAuthMatches :: "jsstring \<Rightarrow> nat" where
  "countAuthMatches s =
     countWords True
       [js ''auth'', js ''token'', js ''password'', js ''credential'', js ''secret'', js ''jwt'',
        js ''oauth'', js ''session''] s"

text \<open>The removed lines of the deleting and modifying chunks of a file.\<close>

definition countDeletions :: "DiffChunk list \<Rightarrow> nat" where
  "countDeletions fileChunks =
     foldl (\<lambda>sum c. sum + length (filter (\<lambda>l. startsWith l (js ''-'')) (split_on 10 (content c))))
       0 (filter (\<lambda>c. type c = deletion \<or> type c = modification) fileChunks)"

text \<open>A rule of the scorer: when it fires it adds its points to \<open>score\<close> and pushes its
  reason on \<open>reasons\<close>.\<close>

definition rule :: "bool \<Rightarrow> int \<Rightarrow> jsstring \<Rightarrow> int \<times> jsstring list \<Rightarrow> int \<times> jsstring list" where
  "rule fires points reason sr =
     (if fires then (fst sr + points, snd sr @ [reason]) else sr)"

text \<open>The body of \<open>for (const [filePath, fileChunks] of fileMap)\<close>, in the order of the
  source.\<close>

definition fileReport :: "jsstring \<Rightarrow> DiffChunk list \<Rightarrow> RiskReport" where
  "fileReport path fileChunks =
     (let sr0 = (0, []);
          sr1 = rule (testAuthDirectory path) 30
                  (js ''File is in an authentication/authorization directory'') sr0;
          sr2 = rule (testSensitiveFile path) 25
                  (js ''File may contain sensitive credentials or certificates'') sr1;
          sr3 = rule (testMiddleware path) 20
                  (js ''File is middleware '' @ [8212] @
                   js '' changes may affect request/response pipeline'') sr2;
          sr4 = rule (testDependencyFile path) 20
                  (js ''Dependency file changed '' @ [8212] @ js '' supply chain risk'') sr3;
          sr5 = rule (testSchema path) 15 (js ''Schema or migration change detected'') sr4;
          allContent = join [10] (map content fileChunks);
          authMatches = countAuthMatches allContent;
          sr6 = rule (authMatches > 0) (min (int authMatches * 5) 20)
                  (js ''Contains '' @ showNat authMatches @ js '' auth-related keyword(s)'') sr5;
          totalDeletions = countDeletions fileChunks;
          sr7 = (if totalDeletions > 50
                 then rule True 15
                        (js ''Large deletion: '' @ showNat totalDeletions @ js '' lines removed'') sr6
                 else rule (totalDeletions > 20) 8
                        (js ''Notable deletion: '' @ showNat totalDeletions @ js '' lines removed'')
                        sr6);
          importChanges = length (filter (\<lambda>c. containsImportChange (metadata c)) fileChunks);
          sr8 = rule (importChanges > 0) (min (int importChanges * 3) 10)
                  (showNat importChanges @ js '' chunk(s) contain import/dependency changes'') sr7;
          functionChanges = length (filter (\<lambda>c. containsFunction (metadata c)) fileChunks);
          sr9 = rule (functionChanges > 3) 10
                  (showNat functionChanges @ js '' function-level changes detected'') sr8;
          score = min (fst sr9) 100;
          level = (if score \<ge> 60 then high else if score \<ge> 30 then medium else low);
          reasons = (if length (snd sr9) = 0
                     then snd sr9 @ [js ''No significant risk factors identified'']
                     else snd sr9)
      in \<lparr>filePath = path, score = score, level = level, reasons = reasons\<rparr>)"

text \<open>The reports in the order of the map, before they are sorted.\<close>

definition reports :: "DiffChunk list \<Rightarrow> RiskReport list" where
  "reports cs = map (\<lambda>(path, fileChunks). fileReport path fileChunks) (groupByFile cs)"

text \<open>
  \<open>reports.sort((a, b) => b.score - a.score)\<close>. \<open>Array.prototype.sort\<close> is stable
  (ECMAScript 2019), so the result is the stable sort by falling score:
  \<open>sort_key\<close> is a stable insertion sort, here on the negated score.
\<close>

definition analyze :: "DiffChunk list \<Rightarrow> RiskReport list" where
  "analyze cs = sort_key (\<lambda>r. - score r) (reports cs)"

text \<open>What the rules keep true of \<open>score\<close> and \<open>reasons\<close>: the score is not negative, and
  as long as it is 0 no reason has been pushed (a rule that fires adds points).\<close>

definition ruleInv :: "int \<times> jsstring list \<Rightarrow> bool" where
  "ruleInv sr \<longleftrightarrow> 0 \<le> fst sr \<and> (fst sr = 0 \<longrightarrow> snd sr = [])"

section \<open>JavaScript values\<close>

text \<open>\<open>Math.max\<close> and \<open>Math.min\<close> of two numbers give \<open>NaN\<close> as soon as an argument is
  \<open>NaN\<close>.\<close>

definition Math_max :: "number \<Rightarrow> number \<Rightarrow> number" where
  "Math_max a b = (if a = NaN \<or> b = NaN then NaN else if numLe a b then b else a)"

definition Math_min :: "number \<Rightarrow> number \<Rightarrow> number" where
  "Math_min a b = (if a = NaN \<or> b = NaN then NaN else if numLe a b then a else b)"

text \<open>
  What \<open>JSON.parse\<close> returns and what the fields of a result hold: the code reads the
  parsed value through an unchecked cast, so a field holds whatever value the text gave.
  An object is the list of its own properties.
\<close>

datatype jsval =
    JUndefined
  | JNull
  | JBool bool
  | JNumber number
  | JString jsstring
  | JArray "jsval list"
  | JObject "(jsstring \<times> jsval) list"

text \<open>
  What a function throws, or a promise rejects with: a \<open>TypeError\<close> or a \<open>SyntaxError\<close>
  of the platform, or the value that a call of the service rejected with. JavaScript
  throws any value: \<open>undefined\<close>, \<open>null\<close>, a string, an object. An \<open>Error\<close> is the
  object of its properties, \<open>message\<close> among them (an \<open>Error\<close> made without a message
  has the empty message of its prototype, and is the object with the message \<open>''\<close>).
\<close>

datatype exception = TypeError | SyntaxError | Thrown jsval

text \<open>\<open>JSON.parse\<close> is a parameter of the model, a function \<open>JSON_parse\<close> from the text to
  the value, \<open>None\<close> when the built-in throws its \<open>SyntaxError\<close>. \<open>parseE\<close> is the call
  as a step that may throw.\<close>

definition parseE :: "(jsstring \<Rightarrow> jsval option) \<Rightarrow> jsstring \<Rightarrow> exception + jsval" where
  "parseE JSON_parse t = (case JSON_parse t of None \<Rightarrow> Inl SyntaxError | Some v \<Rightarrow> Inr v)"

text \<open>Running a step after one that may have thrown.\<close>

definition bindE :: "exception + 'a \<Rightarrow> ('a \<Rightarrow> exception + 'b) \<Rightarrow> exception + 'b" where
  "bindE m f = (case m of Inl e \<Rightarrow> Inl e | Inr v \<Rightarrow> f v)"

text \<open>\<open>try { body } catch { handler }\<close>\<close>

definition try_catch :: "exception + 'a \<Rightarrow> (exception \<Rightarrow> exception + 'a) \<Rightarrow> exception + 'a" where
  "try_catch body handler = (case body of Inl e \<Rightarrow> handler e | Inr v \<Rightarrow> Inr v)"

text \<open>
  \<open>v.k\<close> for the property names this code reads (\<open>summary\<close>, \<open>riskLevel\<close>,
  \<open>suggestions\<close>, \<open>overallSummary\<close>, \<open>complexityScore\<close>, \<open>qualityGrade\<close>,
  \<open>categories\<close>, \<open>recommendations\<close>, the fields of a category and of a
  recommendation, and \<open>message\<close> on what was caught): a \<open>TypeError\<close> on \<open>undefined\<close>
  and \<open>null\<close>, the own property of an object, and \<open>undefined\<close> otherwise, since no
  prototype of a boolean, a number, a string, an array or a plain object has a property of
  these names.
\<close>

definition getProp :: "jsval \<Rightarrow> jsstring \<Rightarrow> exception + jsval" where
  "getProp v k =
     (case v of
        JUndefined \<Rightarrow> Inl TypeError
      | JNull \<Rightarrow> Inl TypeError
      | JObject kvs \<Rightarrow> Inr (case map_of kvs k of None \<Rightarrow> JUndefined | Some x \<Rightarrow> x)
      | _ \<Rightarrow> Inr JUndefined)"

text \<open>\<open>v ?? d\<close>\<close>

definition nullish :: "jsval \<Rightarrow> jsval \<Rightarrow> jsval" where
  "nullish v d = (if v = JUndefined \<or> v = JNull then d else v)"

text \<open>
  \<open>ToNumber\<close>, applied by \<open>Math.max\<close> to its argument. The conversion of a string, an
  array or an object to a number is left to the platform: it is the parameter \<open>toNum\<close>.
\<close>

definition ToNumber :: "(jsval \<Rightarrow> number) \<Rightarrow> jsval \<Rightarrow> number" where
  "ToNumber toNum v =
     (case v of
        JUndefined \<Rightarrow> NaN
      | JNull \<Rightarrow> Fin 0
      | JBool b \<Rightarrow> (if b then Fin 1 else Fin 0)
      | JNumber n \<Rightarrow> n
      | _ \<Rightarrow> toNum v)"

text \<open>
  \<open>ToString\<close>, applied to a value that stands in a template literal. A string is
  itself; \<open>undefined\<close>, \<open>null\<close>, a boolean, \<open>NaN\<close> and the infinities give their
  names; an integer below \<open>2^53\<close> gives its decimal digits. The text of another number
  (the shortest digits that read back as that double), of an array and of an object is
  left to the platform: it is the parameter \<open>toStr\<close>.
\<close>

definition ToString :: "(jsval \<Rightarrow> jsstring) \<Rightarrow> jsval \<Rightarrow> jsstring" where
  "ToString toStr v =
     (case v of
        JUndefined \<Rightarrow> js ''undefined''
      | JNull \<Rightarrow> js ''null''
      | JBool b \<Rightarrow> (if b then js ''true'' else js ''false'')
      | JNumber n \<Rightarrow>
          (case n of
             Fin x \<Rightarrow> if of_int \<lfloor>x\<rfloor> = x \<and> \<bar>x\<bar> < 2 ^ 53 then showInt \<lfloor>x\<rfloor> else toStr v
           | PosInfinity \<Rightarrow> js ''Infinity''
           | NegInfinity \<Rightarrow> js ''-Infinity''
           | NaN \<Rightarrow> js ''NaN'')
      | JString t \<Rightarrow> t
      | _ \<Rightarrow> toStr v)"

text \<open>\<open>xs.map(f)\<close> with an \<open>f\<close> that may throw; a value that is no array has no \<open>map\<close>.\<close>

fun mapE :: "('a \<Rightarrow> exception + 'b) \<Rightarrow> 'a list \<Rightarrow> exception + 'b list" where
  "mapE f [] = Inr []"
| "mapE f (x # xs) = bindE (f x) (\<lambda>y. bindE (mapE f xs) (\<lambda>ys. Inr (y # ys)))"

definition arrayMap :: "(jsval \<Rightarrow> exception + jsval) \<Rightarrow> jsval \<Rightarrow> exception + jsval" where
  "arrayMap f v =
     (case v of
        JArray xs \<Rightarrow> bindE (mapE f xs) (\<lambda>ys. Inr (JArray ys))
      | _ \<Rightarrow> Inl TypeError)"

text \<open>
  The code fence is taken off the raw response by
  \<open>rawResponse.replace(/^```(?:json)?\s*/m, '').replace(/\s*```$/m, '').trim()\<close>.
  A \<open>replace\<close> with a pattern that has no \<open>g\<close> flag replaces the first match.

  First pattern: the first index at a line start where three backquotes stand; the match
  takes them, \<open>json\<close> when it follows, and all the white space after that.
\<close>

fun stripOpeningFence :: "bool \<Rightarrow> jsstring \<Rightarrow> jsstring" where
  "stripOpeningFence atLineStart [] = []"
| "stripOpeningFence atLineStart (c # cs) =
     (if atLineStart \<and> startsWith (c # cs) (js ''```'')
      then
        let r = drop 3 (c # cs);
            r' = (if startsWith r (js ''json'') then drop 4 r else r)
        in dropWhile WhiteSpace r'
      else c # stripOpeningFence (LineTerminator c) cs)"

text \<open>
  Second pattern: the first index from which white space (all there is: the next code
  unit has to be a backquote), three backquotes and then the end of the string or a line
  terminator follow.
\<close>

definition closingFenceAt :: "jsstring \<Rightarrow> bool" where
  "closingFenceAt u \<longleftrightarrow>
     startsWith u (js ''```'') \<and> (case drop 3 u of [] \<Rightarrow> True | d # _ \<Rightarrow> LineTerminator d)"

fun stripClosingFence :: "jsstring \<Rightarrow> jsstring" where
  "stripClosingFence [] = []"
| "stripClosingFence (c # cs) =
     (let u = dropWhile WhiteSpace (c # cs)
      in if closingFenceAt u then drop 3 u else c # stripClosingFence cs)"

definition stripCodeFences :: "jsstring \<Rightarrow> jsstring" where
  "stripCodeFences rawResponse = trim (stripClosingFence (stripOpeningFence True rawResponse))"

section \<open>The Copilot service\<close>

text \<open>
  The review engine holds an \<open>ICopilotService\<close>. \<open>ask\<close> resolves to the text of the
  answer (\<open>Inr\<close>) or rejects with a value (\<open>Inl\<close>), which the interface does not
  restrict: the service of the extension throws \<open>Error\<close> objects, another
  implementation may reject with any value. The service may change its state \<open>'s\<close> on
  the way (the model last used). A call that never settles is not modelled.
  \<open>getLastUsedModelName\<close> is there or not, as \<open>?.()\<close> provides for.
\<close>

record 's ICopilotService =
  ask :: "jsstring \<Rightarrow> jsstring option \<Rightarrow> 's \<Rightarrow> (jsval + jsstring) \<times> 's"
  getLastUsedModelName :: "('s \<Rightarrow> jsstring) option"

text \<open>\<open>(this.copilot as CopilotService).getLastUsedModelName?.() ?? 'unknown'\<close>\<close>

definition getModelName :: "'s ICopilotService \<Rightarrow> 's \<Rightarrow> jsstring" where
  "getModelName copilot s =
     (case getLastUsedModelName copilot of None \<Rightarrow> js ''unknown'' | Some f \<Rightarrow> f s)"

section \<open>The review engine\<close>

datatype ReviewMode =
  security | performance | clean_code | architecture | test_coverage | general

definition modeName :: "ReviewMode \<Rightarrow> jsstring" where
  "modeName m =
     (case m of
        security \<Rightarrow> js ''security''
      | performance \<Rightarrow> js ''performance''
      | clean_code \<Rightarrow> js ''clean-code''
      | architecture \<Rightarrow> js ''architecture''
      | test_coverage \<Rightarrow> js ''test-coverage''
      | general \<Rightarrow> js ''general'')"

definition typeName :: "ChunkType \<Rightarrow> jsstring" where
  "typeName t =
     (case t of
        addition \<Rightarrow> js ''addition''
      | deletion \<Rightarrow> js ''deletion''
      | modification \<Rightarrow> js ''modification'')"

definition REVIEW_MODE_PROMPTS :: "ReviewMode \<Rightarrow> jsstring" where
  "REVIEW_MODE_PROMPTS m =
     (case m of
        security \<Rightarrow> join [10]
          [js ''You are a security code reviewer. Analyze this code diff for:'',
           js ''- Authentication and authorization vulnerabilities'',
           js ''- Injection attacks (SQL, XSS, command injection)'',
           js ''- Insecure data handling or exposure of secrets'',
           js ''- Cryptographic weaknesses'',
           js ''- Input validation issues'']
      | performance \<Rightarrow> join [10]
          [js ''You are a performance engineering expert. Analyze this code diff for:'',
           js ''- Unnecessary database queries or N+1 problems'',
           js ''- Memory leaks or excessive allocations'',
           js ''- Blocking operations in async contexts'',
           js ''- Missing caching opportunities'',
           js ''- Algorithm complexity issues'']
      | clean_code \<Rightarrow> join [10]
          [js ''You are a clean code expert. Analyze this code diff for:'',
           js ''- Code duplication and DRY violations'',
           js ''- Long functions that should be decomposed'',
           js ''- Poor naming of variables, functions, or classes'',
           js ''- Magic numbers or strings'',
           js ''- Violation of Single Responsibility Principle'']
      | architecture \<Rightarrow> join [10]
          [js ''You are a software architect. Analyze this code diff for:'',
           js ''- Tight coupling and dependency violations'',
           js ''- Missing abstraction layers'',
           js ''- Violation of SOLID principles'',
           js ''- Circular dependencies'',
           js ''- Inappropriate use of design patterns'']
      | test_coverage \<Rightarrow> join [10]
          [js ''You are a QA engineer and testing expert. Analyze this code diff for:'',
           js ''- Missing unit tests for new functions'',
           js ''- Missing edge case coverage'',
           js ''- Untested error paths'',
           js ''- Test quality issues (brittle, non-deterministic tests)'',
           js ''- Missing integration test scenarios'']
      | general \<Rightarrow> join [10]
          [js ''You are an expert code reviewer. Analyze this code diff comprehensively for:'',
           js ''- Bugs and logic errors'',
           js ''- Security concerns'',
           js ''- Performance issues'',
           js ''- Code quality and maintainability'',
           js ''- Missing tests or documentation''])"

definition buildPrompt :: "(jsval \<Rightarrow> jsstring) \<Rightarrow> ReviewMode \<Rightarrow> DiffChunk \<Rightarrow> jsstring" where
  \<open>buildPrompt toStr reviewMode chunk =
     (let modeInstructions = REVIEW_MODE_PROMPTS reviewMode;
          maxContentLength = 4000;
          truncatedContent =
            (if length (content chunk) > maxContentLength
             then take maxContentLength (content chunk) @ [10] @ js ''... [truncated]''
             else content chunk)
      in join [10]
           [modeInstructions,
            [],
            js ''## File: '' @ DiffChunk.filePath chunk,
            js ''## Change Type: '' @ typeName (type chunk),
            js ''## Lines: '' @ ToString toStr (JNumber (startLine chunk)) @ [8211] @
              ToString toStr (JNumber (endLine chunk)),
            [],
            js ''```diff'',
            truncatedContent,
            js ''```'',
            [],
            js ''Respond in this exact JSON format (no markdown code blocks, just raw JSON):'',
            js ''{'',
            js ''  "summary": "One sentence summary of the change",'',
            js ''  "riskLevel": "low|medium|high",'',
            js ''  "suggestions": ['',
            js ''    {'',
            js ''      "line": <line number>,'',
            js ''      "severity": "info|warning|error",'',
            js ''      "message": "<clear actionable message>",'',
            js ''      "patch": "<optional suggested replacement code>"'',
            js ''    }'',
            js ''  ]'',
            js ''}''])\<close>

record ReviewResult =
  chunkId :: jsstring
  filePath :: jsstring
  mode :: ReviewMode
  suggestions :: jsval
  summary :: jsval
  riskLevel :: jsval
  modelUsed :: jsstring

text \<open>
  \<open>reviewChunk\<close>. The result is the value the promise resolves to, or the exception
  it rejects with, and the state of the service after the call. The first \<open>catch\<close>
  reads \<open>(err as Error).message\<close> off whatever the call rejected with, and nothing
  catches what this read throws.
\<close>

definition reviewChunk ::
  "(jsstring \<Rightarrow> jsval option) \<Rightarrow> (jsval \<Rightarrow> jsstring) \<Rightarrow> 's ICopilotService \<Rightarrow> DiffChunk \<Rightarrow>
   ReviewMode \<Rightarrow> jsstring option \<Rightarrow> 's \<Rightarrow> (exception + ReviewResult) \<times> 's" where
  "reviewChunk JSON_parse toStr copilot chunk reviewMode modelId s =
     (let prompt = buildPrompt toStr reviewMode chunk;
          chunkId = DiffChunk.filePath chunk @ js '':'' @
                    ToString toStr (JNumber (startLine chunk)) @ js ''-'' @
                    ToString toStr (JNumber (endLine chunk));
          (answer, s') = ask copilot prompt modelId s
      in case answer of
           Inl err \<Rightarrow>
             (bindE (getProp err (js ''message'')) (\<lambda>err_message.
                Inr \<lparr>chunkId = chunkId,
                     filePath = DiffChunk.filePath chunk,
                     mode = reviewMode,
                     suggestions = JArray [],
                     summary = JString (js ''Copilot unavailable: '' @ ToString toStr err_message),
                     riskLevel = JString (js ''low''),
                     modelUsed = getModelName copilot s'\<rparr>), s')
         | Inr rawResponse \<Rightarrow>
             (try_catch
                (let jsonStr = stripCodeFences rawResponse
                 in bindE (parseE JSON_parse jsonStr) (\<lambda>parsed.
                    bindE (getProp parsed (js ''suggestions'')) (\<lambda>parsed_suggestions.
                    bindE (getProp parsed (js ''summary'')) (\<lambda>parsed_summary.
                    bindE (getProp parsed (js ''riskLevel'')) (\<lambda>parsed_riskLevel.
                      Inr \<lparr>chunkId = chunkId,
                           filePath = DiffChunk.filePath chunk,
                           mode = reviewMode,
                           suggestions = nullish parsed_suggestions (JArray []),
                           summary = nullish parsed_summary (JString []),
                           riskLevel = nullish parsed_riskLevel (JString (js ''low'')),
                           modelUsed = getModelName copilot s'\<rparr>)))))
                (\<lambda>e. Inr \<lparr>chunkId = chunkId,
                      filePath = DiffChunk.filePath chunk,
                      mode = reviewMode,
                      suggestions =
                        JArray [JObject [(js ''line'', JNumber (startLine chunk)),
                                         (js ''severity'', JString (js ''info'')),
                                         (js ''message'', JString rawResponse)]],
                      summary = JString (js ''Review completed (unstructured response)''),
                      riskLevel = JString (js ''low''),
                      modelUsed = getModelName copilot s'\<rparr>), s'))"

text \<open>The result of the \<open>catch\<close> branch of the decoding, under a name.\<close>

definition fallbackResult ::
  "(jsval \<Rightarrow> jsstring) \<Rightarrow> 's ICopilotService \<Rightarrow> DiffChunk \<Rightarrow> ReviewMode \<Rightarrow> jsstring \<Rightarrow> 's \<Rightarrow>
   ReviewResult" where
  "fallbackResult toStr copilot chunk reviewMode rawResponse s' =
     \<lparr>chunkId = DiffChunk.filePath chunk @ js '':'' @
                ToString toStr (JNumber (startLine chunk)) @ js ''-'' @
                ToString toStr (JNumber (endLine chunk)),
      filePath = DiffChunk.filePath chunk,
      mode = reviewMode,
      suggestions =
        JArray [JObject [(js ''line'', JNumber (startLine chunk)),
                         (js ''severity'', JString (js ''info'')),
                         (js ''message'', JString rawResponse)]],
      summary = JString (js ''Review completed (unstructured response)''),
      riskLevel = JString (js ''low''),
      modelUsed = getModelName copilot s'\<rparr>"

section \<open>The deep analysis engine\<close>

datatype FileStatus = added | modified | deleted | renamed

record ChangedFile =
  filePath :: jsstring
  status :: FileStatus
  additions :: int
  deletions :: int

datatype TestCoverage = none | partial | good | excellent

record PRMetrics =
  totalFilesChanged :: nat
  totalAdditions :: int
  totalDeletions :: int
  avgComplexityPerFile :: int
  hotspotFiles :: "jsstring list"
  testCoverage :: TestCoverage

record InDepthAnalysis =
  prNumber :: int
  overallSummary :: jsval
  complexityScore :: number
  qualityGrade :: jsstring
  categories :: jsval
  recommendations :: jsval
  metrics :: PRMetrics
  modelUsed :: jsstring

definition ANALYSIS_CATEGORIES :: "jsstring list" where
  "ANALYSIS_CATEGORIES =
     [js ''Code Quality'', js ''Security'', js ''Performance'', js ''Error Handling'',
      js ''Testing'', js ''Documentation'', js ''Architecture'', js ''Dependencies'']"

text \<open>\<open>/\.(test|spec)\.(ts|tsx|js|jsx)$/.test(f.filePath) || /\/tests?\//.test(f.filePath)\<close>\<close>

definition testFile :: "jsstring \<Rightarrow> bool" where
  "testFile p \<longleftrightarrow>
     list_ex (endsWith p)
       [js ''.test.ts'', js ''.test.tsx'', js ''.test.js'', js ''.test.jsx'',
        js ''.spec.ts'', js ''.spec.tsx'', js ''.spec.js'', js ''.spec.jsx''] \<or>
     testContains False [js ''/test/'', js ''/tests/''] p"

text \<open>
  \<open>computeMetrics\<close>. \<open>fileSizes\<close> is a \<open>Map\<close> again, read in the order of its keys.
  \<open>Math.round\<close> is \<open>round\<close> on the sizes, which are not negative; the ratio of the
  counts is the exact quotient.
\<close>

definition computeMetrics :: "DiffChunk list \<Rightarrow> ChangedFile list \<Rightarrow> PRMetrics" where
  "computeMetrics cs changedFiles =
     (let totalAdditions = foldl (\<lambda>s f. s + additions f) 0 changedFiles;
          totalDeletions = foldl (\<lambda>s f. s + deletions f) 0 changedFiles;
          fileSizes =
            foldl (\<lambda>m chunk.
                     let current = (case map_of m (DiffChunk.filePath chunk) of
                                      None \<Rightarrow> 0 | Some n \<Rightarrow> n)
                     in AList.update (DiffChunk.filePath chunk)
                          (current + length (split_on 10 (content chunk))) m)
              [] cs;
          sizes = map snd fileSizes;
          avgComplexity =
            (if length sizes > 0
             then round (rat_of_nat (foldl (\<lambda>a b. a + b) 0 sizes) / rat_of_nat (length sizes))
             else 0);
          hotspotFiles = map fst (take 5 (sort_key (\<lambda>e. - int (snd e)) fileSizes));
          hasTestFiles = list_ex (\<lambda>f. testFile (ChangedFile.filePath f)) changedFiles;
          testFileCount = length (filter (\<lambda>f. testFile (ChangedFile.filePath f)) changedFiles);
          nonTestCount = int (length changedFiles) - int testFileCount;
          testCoverage =
            (if hasTestFiles
             then
               let ratio = (if nonTestCount > 0
                            then rat_of_nat testFileCount / rat_of_int nonTestCount else 1)
               in if ratio \<ge> 8 / 10 then excellent
                  else if ratio \<ge> 5 / 10 then good
                  else partial
             else none)
      in \<lparr>totalFilesChanged = length changedFiles,
          totalAdditions = totalAdditions,
          totalDeletions = totalDeletions,
          avgComplexityPerFile = avgComplexity,
          hotspotFiles = hotspotFiles,
          testCoverage = testCoverage\<rparr>)"

text \<open>\<open>buildDiffSummary\<close>: the loop over the chunks, which stops at the first entry that
  would go over the limit.\<close>

definition summaryEntry :: "(jsval \<Rightarrow> jsstring) \<Rightarrow> DiffChunk \<Rightarrow> jsstring" where
  "summaryEntry toStr chunk =
     js ''### '' @ DiffChunk.filePath chunk @ js '' ('' @ typeName (type chunk) @ js '', L'' @
     ToString toStr (JNumber (startLine chunk)) @ js ''-'' @
     ToString toStr (JNumber (endLine chunk)) @ js '')'' @ [10] @
     js ''```diff'' @ [10] @ take 1500 (content chunk) @ [10] @ js ''```'' @ [10]"

fun summaryParts ::
  "(jsval \<Rightarrow> jsstring) \<Rightarrow> nat \<Rightarrow> nat \<Rightarrow> jsstring list \<Rightarrow> DiffChunk list \<Rightarrow> jsstring list" where
  "summaryParts toStr n totalLength parts [] = parts"
| "summaryParts toStr n totalLength parts (chunk # rest) =
     (let entry = summaryEntry toStr chunk
      in if totalLength + length entry > 12000
         then parts @ [[10] @ js ''... ('' @ showInt (int n - int (length parts)) @
                       js '' more chunks truncated)'']
         else summaryParts toStr n (totalLength + length entry) (parts @ [entry]) rest)"

definition buildDiffSummary :: "(jsval \<Rightarrow> jsstring) \<Rightarrow> DiffChunk list \<Rightarrow> jsstring" where
  "buildDiffSummary toStr cs = join [10] (summaryParts toStr (length cs) 0 [] cs)"

definition coverageName :: "TestCoverage \<Rightarrow> jsstring" where
  "coverageName t =
     (case t of
        none \<Rightarrow> js ''none''
      | partial \<Rightarrow> js ''partial''
      | good \<Rightarrow> js ''good''
      | excellent \<Rightarrow> js ''excellent'')"

definition buildDeepAnalysisPrompt :: "jsstring \<Rightarrow> PRMetrics \<Rightarrow> ReviewMode \<Rightarrow> jsstring" where
  \<open>buildDeepAnalysisPrompt diffSummary m reviewMode =
     join [10]
       [js ''You are a senior software engineer performing an in-depth pull request analysis.'',
        js ''Focus area: '' @ modeName reviewMode,
        [],
        js ''## PR Metrics'',
        js ''- Files changed: '' @ showNat (totalFilesChanged m),
        js ''- Lines added: '' @ showInt (totalAdditions m),
        js ''- Lines deleted: '' @ showInt (totalDeletions m),
        js ''- Test coverage: '' @ coverageName (testCoverage m),
        js ''- Hotspot files: '' @
          (if join (js '', '') (hotspotFiles m) = [] then js ''none''
           else join (js '', '') (hotspotFiles m)),
        [],
        js ''## Changes'',
        diffSummary,
        [],
        js ''Perform a deep, thorough analysis. Respond in this exact JSON format (no markdown code blocks, just raw JSON):'',
        js ''{'',
        js ''  "overallSummary": "Comprehensive 3-5 sentence summary of what this PR does and its impact",'',
        js ''  "complexityScore": <0-100, where 100 is extremely complex>,'',
        js ''  "qualityGrade": "A|B|C|D|F",'',
        js ''  "categories": ['',
        js ''    {'',
        js ''      "name": "'' @ join (js ''|'') ANALYSIS_CATEGORIES @ js ''",'',
        js ''      "score": <0-100>,'',
        js ''      "findings": ["finding 1", "finding 2"],'',
        js ''      "severity": "good|acceptable|needs-improvement|critical"'',
        js ''    }'',
        js ''  ],'',
        js ''  "recommendations": ['',
        js ''    {'',
        js ''      "priority": "low|medium|high|critical",'',
        js ''      "title": "Short title",'',
        js ''      "description": "Detailed actionable recommendation",'',
        js ''      "filePath": "optional/file/path.ts",'',
        js ''      "lineRange": { "start": 1, "end": 10 }'',
        js ''    }'',
        js ''  ]'',
        js ''}'',
        [],
        js ''Analyze ALL of these categories: '' @ join (js '', '') ANALYSIS_CATEGORIES @
          js ''. Be thorough and actionable.'']\<close>

text \<open>
  \<open>toUpperCase\<close> on the ASCII letters. A code unit from 128 on is left as it is: no
  string with such a code unit has \<open>A\<close>, \<open>B\<close>, \<open>C\<close>, \<open>D\<close> or \<open>F\<close> for its upper case,
  which is all \<open>validateGrade\<close> asks about.
\<close>

definition toUpperCase :: "jsstring \<Rightarrow> jsstring" where
  "toUpperCase s = map (\<lambda>c. if 97 \<le> c \<and> c \<le> 122 then c - 32 else c) s"

text \<open>\<open>validateGrade\<close>: a grade that is there and is no string has no \<open>toUpperCase\<close>.\<close>

definition validateGrade :: "jsval \<Rightarrow> exception + jsstring" where
  "validateGrade grade =
     (let valid = [js ''A'', js ''B'', js ''C'', js ''D'', js ''F'']
      in case nullish grade (JString (js ''C'')) of
           JString g \<Rightarrow>
             (let upper = toUpperCase g
              in Inr (if upper \<in> set valid then upper else js ''C''))
         | _ \<Rightarrow> Inl TypeError)"

text \<open>\<open>fallbackAnalysis\<close>. Its \<open>error\<close> is declared a string and holds whatever the caller
  passes; the template literal turns it into text.\<close>

definition fallbackAnalysis ::
  "(jsval \<Rightarrow> jsstring) \<Rightarrow> int \<Rightarrow> PRMetrics \<Rightarrow> jsval \<Rightarrow> InDepthAnalysis" where
  "fallbackAnalysis toStr pr m error =
     \<lparr>prNumber = pr,
      overallSummary = JString (js ''Unable to complete deep analysis: '' @ ToString toStr error),
      complexityScore = Fin 0,
      qualityGrade = js ''C'',
      categories = JArray [],
      recommendations = JArray [],
      metrics = m,
      modelUsed = js ''unknown''\<rparr>"

text \<open>\<open>Math.min(100, Math.max(0, v ?? 50))\<close>\<close>

definition clampScore :: "(jsval \<Rightarrow> number) \<Rightarrow> jsval \<Rightarrow> number" where
  "clampScore toNum v =
     Math_min (Fin 100) (Math_max (Fin 0) (ToNumber toNum (nullish v (JNumber (Fin 50)))))"

text \<open>The two functions given to \<open>map\<close> in \<open>analyze\<close>.\<close>

definition mapCategory :: "(jsval \<Rightarrow> number) \<Rightarrow> jsval \<Rightarrow> exception + jsval" where
  "mapCategory toNum c =
     bindE (getProp c (js ''name'')) (\<lambda>c_name.
     bindE (getProp c (js ''score'')) (\<lambda>c_score.
     bindE (getProp c (js ''findings'')) (\<lambda>c_findings.
     bindE (getProp c (js ''severity'')) (\<lambda>c_severity.
       Inr (JObject [(js ''name'', c_name),
                     (js ''score'', JNumber (clampScore toNum c_score)),
                     (js ''findings'', nullish c_findings (JArray [])),
                     (js ''severity'', nullish c_severity (JString (js ''acceptable'')))])))))"

definition mapRecommendation :: "jsval \<Rightarrow> exception + jsval" where
  "mapRecommendation r =
     bindE (getProp r (js ''priority'')) (\<lambda>r_priority.
     bindE (getProp r (js ''title'')) (\<lambda>r_title.
     bindE (getProp r (js ''description'')) (\<lambda>r_description.
     bindE (getProp r (js ''filePath'')) (\<lambda>r_filePath.
     bindE (getProp r (js ''lineRange'')) (\<lambda>r_lineRange.
       Inr (JObject [(js ''priority'', nullish r_priority (JString (js ''medium''))),
                     (js ''title'', nullish r_title (JString (js ''Recommendation''))),
                     (js ''description'', nullish r_description (JString [])),
                     (js ''filePath'', r_filePath),
                     (js ''lineRange'', r_lineRange)]))))))"

text \<open>\<open>DeepAnalysisEngine.analyze\<close>. As in \<open>reviewChunk\<close>, the first \<open>catch\<close> reads
  \<open>(err as Error).message\<close> off whatever the call rejected with.\<close>

definition DeepAnalysisEngine_analyze ::
  "(jsstring \<Rightarrow> jsval option) \<Rightarrow> (jsval \<Rightarrow> number) \<Rightarrow> (jsval \<Rightarrow> jsstring) \<Rightarrow>
   's ICopilotService \<Rightarrow> int \<Rightarrow> DiffChunk list \<Rightarrow> ChangedFile list \<Rightarrow> ReviewMode \<Rightarrow> 's \<Rightarrow>
   (exception + InDepthAnalysis) \<times> 's" where
  "DeepAnalysisEngine_analyze JSON_parse toNum toStr copilot pr cs changedFiles reviewMode s =
     (let m = computeMetrics cs changedFiles;
          allContent = buildDiffSummary toStr cs;
          prompt = buildDeepAnalysisPrompt allContent m reviewMode;
          (answer, s') = ask copilot prompt None s
      in case answer of
           Inl err \<Rightarrow>
             (bindE (getProp err (js ''message'')) (\<lambda>err_message.
                Inr (fallbackAnalysis toStr pr m err_message)), s')
         | Inr rawResponse \<Rightarrow>
             (let modelName = getModelName copilot s'
              in try_catch
                   (let jsonStr = stripCodeFences rawResponse
                    in bindE (parseE JSON_parse jsonStr) (\<lambda>parsed.
                       bindE (getProp parsed (js ''overallSummary'')) (\<lambda>parsed_overallSummary.
                       bindE (getProp parsed (js ''complexityScore'')) (\<lambda>parsed_complexityScore.
                       bindE (getProp parsed (js ''qualityGrade'')) (\<lambda>parsed_qualityGrade.
                       bindE (validateGrade parsed_qualityGrade) (\<lambda>grade.
                       bindE (getProp parsed (js ''categories'')) (\<lambda>parsed_categories.
                       bindE (arrayMap (mapCategory toNum) (nullish parsed_categories (JArray [])))
                         (\<lambda>cats.
                       bindE (getProp parsed (js ''recommendations'')) (\<lambda>parsed_recommendations.
                       bindE (arrayMap mapRecommendation
                                (nullish parsed_recommendations (JArray [])))
                         (\<lambda>recs.
                         Inr \<lparr>prNumber = pr,
                              overallSummary =
                                nullish parsed_overallSummary (JString (js ''Analysis completed.'')),
                              complexityScore = clampScore toNum parsed_complexityScore,
                              qualityGrade = grade,
                              categories = cats,
                              recommendations = recs,
                              metrics = m,
                              modelUsed = modelName\<rparr>))))))))))
                   (\<lambda>e. Inr \<lparr>prNumber = pr,
                              overallSummary = JString (take 500 rawResponse),
                              complexityScore = Fin 50,
                              qualityGrade = js ''C'',
                              categories = JArray [],
                              recommendations = JArray [],
                              metrics = m,
                              modelUsed = modelName\<rparr>), s'))"

text \<open>
  \<open>compareWithModels\<close>: one turn of \<open>for (const modelId of modelIds)\<close>, which pushes one
  report, and the loop. Here the call of the service is inside the \<open>try\<close>, and the
  \<open>catch\<close> does not look at what it caught.
\<close>

definition compareOne ::
  "(jsstring \<Rightarrow> jsval option) \<Rightarrow> (jsval \<Rightarrow> number) \<Rightarrow> (jsval \<Rightarrow> jsstring) \<Rightarrow>
   's ICopilotService \<Rightarrow> int \<Rightarrow> DiffChunk list \<Rightarrow> ChangedFile list \<Rightarrow> ReviewMode \<Rightarrow> jsstring \<Rightarrow> 's \<Rightarrow>
   (exception + InDepthAnalysis) \<times> 's" where
  "compareOne JSON_parse toNum toStr copilot pr cs changedFiles reviewMode modelId s =
     (let m = computeMetrics cs changedFiles;
          allContent = buildDiffSummary toStr cs;
          prompt = buildDeepAnalysisPrompt allContent m reviewMode;
          (answer, s') = ask copilot prompt (Some modelId) s
      in (try_catch
            (case answer of
               Inl err \<Rightarrow> Inl (Thrown err)
             | Inr rawResponse \<Rightarrow>
                 (let jsonStr = stripCodeFences rawResponse
                  in bindE (parseE JSON_parse jsonStr) (\<lambda>parsed.
                     bindE (getProp parsed (js ''overallSummary'')) (\<lambda>parsed_overallSummary.
                     bindE (getProp parsed (js ''complexityScore'')) (\<lambda>parsed_complexityScore.
                     bindE (getProp parsed (js ''qualityGrade'')) (\<lambda>parsed_qualityGrade.
                     bindE (validateGrade parsed_qualityGrade) (\<lambda>grade.
                     bindE (getProp parsed (js ''categories'')) (\<lambda>parsed_categories.
                     bindE (getProp parsed (js ''recommendations'')) (\<lambda>parsed_recommendations.
                       Inr \<lparr>prNumber = pr,
                            overallSummary =
                              nullish parsed_overallSummary (JString (js ''Analysis completed.'')),
                            complexityScore = clampScore toNum parsed_complexityScore,
                            qualityGrade = grade,
                            categories = nullish parsed_categories (JArray []),
                            recommendations = nullish parsed_recommendations (JArray []),
                            metrics = m,
                            modelUsed = modelId\<rparr>)))))))))
            (\<lambda>e. Inr (fallbackAnalysis toStr pr m
                        (JString (js ''Model '' @ modelId @ js '' failed'')))), s'))"

fun compareWithModels ::
  "(jsstring \<Rightarrow> jsval option) \<Rightarrow> (jsval \<Rightarrow> number) \<Rightarrow> (jsval \<Rightarrow> jsstring) \<Rightarrow>
   's ICopilotService \<Rightarrow> int \<Rightarrow> DiffChunk list \<Rightarrow> ChangedFile list \<Rightarrow> ReviewMode \<Rightarrow>
   jsstring list \<Rightarrow> 's \<Rightarrow> (exception + InDepthAnalysis list) \<times> 's" where
  "compareWithModels JSON_parse toNum toStr copilot pr cs changedFiles reviewMode [] s = (Inr [], s)"
| "compareWithModels JSON_parse toNum toStr copilot pr cs changedFiles reviewMode (modelId # modelIds) s =
     (case compareOne JSON_parse toNum toStr copilot pr cs changedFiles reviewMode modelId s of
        (Inl e, s') \<Rightarrow> (Inl e, s')
      | (Inr r, s') \<Rightarrow>
          (case compareWithModels JSON_parse toNum toStr copilot pr cs changedFiles reviewMode
                  modelIds s' of
             (Inl e, s'') \<Rightarrow> (Inl e, s'')
           | (Inr rs, s'') \<Rightarrow> (Inr (r # rs), s'')))"

section \<open>Concrete inputs\<close>

text \<open>Diffs of one file \<open>f\<close> with one hunk: two added lines; one line of context; a
  line of context and an added import.\<close>

definition diffAddition :: jsstring where
  "diffAddition = join [10] [js ''diff --git a/f b/f'', js ''@@ -6,0 +7,2 @@'', js ''+x'', js ''+y'']"

definition chunkAddition :: DiffChunk where
  "chunkAddition =
     \<lparr>DiffChunk.filePath = js ''f'', type = addition, startLine = Fin 7, endLine = Fin 8,
      content = join [10] [js ''+x'', js ''+y''],
      metadata = \<lparr>containsFunction = False, containsImportChange = False,
                    containsAuthLogic = False\<rparr>\<rparr>"

definition diffContextOnly :: jsstring where
  "diffContextOnly = join [10] [js ''diff --git a/f b/f'', js ''@@ -1 +1 @@'', js '' x'']"

definition chunkContextOnly :: DiffChunk where
  "chunkContextOnly =
     \<lparr>DiffChunk.filePath = js ''f'', type = deletion, startLine = Fin 1, endLine = Fin 1,
      content = js '' x'',
      metadata = \<lparr>containsFunction = False, containsImportChange = False,
                    containsAuthLogic = False\<rparr>\<rparr>"

definition diffImport :: jsstring where
  "diffImport =
     join [10] [js ''diff --git a/f b/f'', js ''@@ -1 +1,2 @@'', js '' a'', js ''+import x'']"

definition chunkImport :: DiffChunk where
  "chunkImport =
     \<lparr>DiffChunk.filePath = js ''f'', type = addition, startLine = Fin 1, endLine = Fin 2,
      content = join [10] [js '' a'', js ''+import x''],
      metadata = \<lparr>containsFunction = False, containsImportChange = False,
                    containsAuthLogic = False\<rparr>\<rparr>"

text \<open>
  Two diffs whose hunk starts at line \<open>2^53 = 9007199254740992\<close> of the new file, one
  with two added lines and one with a single added line, and the chunks they give. From
  \<open>2^53\<close> to \<open>2^54\<close> the doubles are the even integers.
\<close>

definition diffHugeLine :: jsstring where
  "diffHugeLine =
     join [10] [js ''diff --git a/f b/f'', js ''@@ -1 +9007199254740992,2 @@'', js ''+x'', js ''+y'']"

definition chunkHugeLine :: DiffChunk where
  "chunkHugeLine =
     \<lparr>DiffChunk.filePath = js ''f'', type = addition, startLine = Fin 9007199254740992,
      endLine = Fin 9007199254740992,
      content = join [10] [js ''+x'', js ''+y''],
      metadata = \<lparr>containsFunction = False, containsImportChange = False,
                    containsAuthLogic = False\<rparr>\<rparr>"

definition diffHugeLineOne :: jsstring where
  "diffHugeLineOne =
     join [10] [js ''diff --git a/f b/f'', js ''@@ -1 +9007199254740992 @@'', js ''+x'']"

definition chunkHugeLineOne :: DiffChunk where
  "chunkHugeLineOne =
     \<lparr>DiffChunk.filePath = js ''f'', type = addition, startLine = Fin 9007199254740992,
      endLine = Fin 9007199254740991,
      content = js ''+x'',
      metadata = \<lparr>containsFunction = False, containsImportChange = False,
                    containsAuthLogic = False\<rparr>\<rparr>"

text \<open>A diff whose hunk adds a line with the word \<open>login\<close>, the chunk it gives, and
  the report of a file on which no rule of the risk analyzer fires.\<close>

definition diffLogin :: jsstring where
  "diffLogin = join [10] [js ''diff --git a/f b/f'', js ''@@ -1 +1 @@'', js ''+login'']"

definition chunkLogin :: DiffChunk where
  "chunkLogin =
     \<lparr>DiffChunk.filePath = js ''f'', type = addition, startLine = Fin 1, endLine = Fin 1,
      content = js ''+login'',
      metadata = \<lparr>containsFunction = False, containsImportChange = False,
                    containsAuthLogic = True\<rparr>\<rparr>"

definition reportF :: RiskReport where
  "reportF =
     \<lparr>RiskReport.filePath = js ''f'', score = 0, level = low,
      reasons = [js ''No significant risk factors identified'']\<rparr>"

text \<open>A chunk of another file \<open>g\<close> that adds the word \<open>jwt\<close>, and its report.\<close>

definition chunkJwt :: DiffChunk where
  "chunkJwt =
     \<lparr>DiffChunk.filePath = js ''g'', type = addition, startLine = Fin 1, endLine = Fin 1,
      content = js ''+jwt'',
      metadata = \<lparr>containsFunction = False, containsImportChange = False,
                    containsAuthLogic = True\<rparr>\<rparr>"

definition reportJwt :: RiskReport where
  "reportJwt =
     \<lparr>RiskReport.filePath = js ''g'', score = 5, level = low,
      reasons = [js ''Contains 1 auth-related keyword(s)'']\<rparr>"

text \<open>A pull request whose only changed file is a test.\<close>

definition testFileOnly :: "ChangedFile list" where
  "testFileOnly =
     [\<lparr>ChangedFile.filePath = js ''a.test.ts'', status = added, additions = 1, deletions = 0\<rparr>]"

text \<open>
  Two services without state for the examples: one that answers every prompt with a given
  text, as \<open>ask: async () => text\<close> does, and one that rejects every call with a given
  value, as \<open>ask: () => Promise.reject(err)\<close> does. Neither has a
  \<open>getLastUsedModelName\<close>. \<open>errorQuota\<close> is the object \<open>new Error('quota exceeded')\<close>.
\<close>

definition copilotAnswering :: "jsstring \<Rightarrow> unit ICopilotService" where
  "copilotAnswering text =
     \<lparr>ask = (\<lambda>prompt modelId s. (Inr text, s)), getLastUsedModelName = None\<rparr>"

definition copilotRejecting :: "jsval \<Rightarrow> unit ICopilotService" where
  "copilotRejecting err =
     \<lparr>ask = (\<lambda>prompt modelId s. (Inl err, s)), getLastUsedModelName = None\<rparr>"

definition errorQuota :: jsval where
  "errorQuota = JObject [(js ''message'', JString (js ''quota exceeded''))]"

text \<open>
  \<open>ToString\<close> on the examples: the text of a plain object. The examples have no number,
  array or object whose text \<open>ToString\<close> leaves to the platform, so this stand-in is
  never applied.
\<close>

definition ToString_examples :: "jsval \<Rightarrow> jsstring" where
  "ToString_examples v = js ''[object Object]''"

text \<open>
  Responses of the service, and for those that are JSON texts the value that \<open>JSON.parse\<close>
  gives: the number \<open>42\<close>; an object with the three fields of a review; the same with a
  summary made of three backquotes and the line separator U+2028, which a JSON string may
  hold as it is; that text without the three backquotes; an object with one category of
  score 500; and a text that is no JSON.
\<close>

definition responseNumber :: jsstring where
  "responseNumber = js ''42''"

definition responseRoundTrip :: jsstring where
  \<open>responseRoundTrip = js ''{"summary":"ok","riskLevel":"high","suggestions":[]}''\<close>

definition parsedRoundTrip :: "(jsstring \<times> jsval) list" where
  "parsedRoundTrip =
     [(js ''summary'', JString (js ''ok'')), (js ''riskLevel'', JString (js ''high'')),
      (js ''suggestions'', JArray [])]"

definition responseFenceInString :: jsstring where
  \<open>responseFenceInString =
     js ''{"summary":"```'' @ [8232] @ js ''","riskLevel":"low","suggestions":[]}''\<close>

definition parsedFenceInString :: "(jsstring \<times> jsval) list" where
  "parsedFenceInString =
     [(js ''summary'', JString (js ''```'' @ [8232])), (js ''riskLevel'', JString (js ''low'')),
      (js ''suggestions'', JArray [])]"

definition responseFenceStripped :: jsstring where
  \<open>responseFenceStripped =
     js ''{"summary":"'' @ [8232] @ js ''","riskLevel":"low","suggestions":[]}''\<close>

definition parsedFenceStripped :: "(jsstring \<times> jsval) list" where
  "parsedFenceStripped =
     [(js ''summary'', JString [8232]), (js ''riskLevel'', JString (js ''low'')),
      (js ''suggestions'', JArray [])]"

definition responseCategories :: jsstring where
  \<open>responseCategories = js ''{"categories":[{"name":"Security","score":500}]}''\<close>

definition parsedCategories :: "(jsstring \<times> jsval) list" where
  "parsedCategories =
     [(js ''categories'',
       JArray [JObject [(js ''name'', JString (js ''Security'')),
                        (js ''score'', JNumber (Fin 500))]])]"

definition responseProse :: jsstring where
  "responseProse = js ''not json at all''"

text \<open>
  \<open>JSON.parse\<close> on the examples: the table of its values on the five JSON texts above. On
  every other text this stand-in throws, as \<open>JSON.parse\<close> does on \<open>responseProse\<close>; the
  examples apply it to these six texts only.
\<close>

definition JSON_parse_examples :: "jsstring \<Rightarrow> jsval option" where
  "JSON_parse_examples =
     map_of
       [(responseNumber, JNumber (Fin 42)),
        (responseRoundTrip, JObject parsedRoundTrip),
        (responseFenceInString, JObject parsedFenceInString),
        (responseFenceStripped, JObject parsedFenceStripped),
        (responseCategories, JObject parsedCategories)]"

text \<open>The review of \<open>chunkLogin\<close> in mode \<open>general\<close> by one of the two services, with
  given suggestions, summary and risk level.\<close>

definition reviewOfLogin :: "jsval \<Rightarrow> jsval \<Rightarrow> jsval \<Rightarrow> ReviewResult" where
  "reviewOfLogin sg sm rl =
     \<lparr>chunkId = js ''f:1-1'', filePath = js ''f'', mode = general, suggestions = sg,
      summary = sm, riskLevel = rl, modelUsed = js ''unknown''\<rparr>"

text \<open>The metrics of an empty pull request, and the reports that the comparison and the
  analysis give for it on \<open>responseCategories\<close>.\<close>

definition metricsEmpty :: PRMetrics where
  "metricsEmpty =
     \<lparr>totalFilesChanged = 0, totalAdditions = 0, totalDeletions = 0, avgComplexityPerFile = 0,
      hotspotFiles = [], testCoverage = none\<rparr>"

definition reportCompared :: InDepthAnalysis where
  "reportCompared =
     \<lparr>prNumber = 1,
      overallSummary = JString (js ''Analysis completed.''),
      complexityScore = Fin 50,
      qualityGrade = js ''C'',
      categories = JArray [JObject [(js ''name'', JString (js ''Security'')),
                                    (js ''score'', JNumber (Fin 500))]],
      recommendations = JArray [],
      metrics = metricsEmpty,
      modelUsed = js ''m''\<rparr>"

definition reportAnalyzed :: InDepthAnalysis where
  "reportAnalyzed =
     \<lparr>prNumber = 1,
      overallSummary = JString (js ''Analysis completed.''),
      complexityScore = Fin 50,
      qualityGrade = js ''C'',
      categories = JArray [JObject [(js ''name'', JString (js ''Security'')),
                                    (js ''score'', JNumber (Fin 100)),
                                    (js ''findings'', JArray []),
                                    (js ''severity'', JString (js ''acceptable''))]],
      recommendations = JArray [],
      metrics = metricsEmpty,
      modelUsed = js ''unknown''\<rparr>"

section \<open>Evaluation\<close>

text \<open>The code units of the printable ASCII characters, for running the model on
  concrete strings.\<close>

lemma ascii_codes:
  "of_char (CHR '' '') = (32::nat)"
  "of_char (CHR ''!'') = (33::nat)"
  "of_char (CHR 0x22) = (34::nat)"
  "of_char (CHR ''#'') = (35::nat)"
  "of_char (CHR ''$'') = (36::nat)"
  "of_char (CHR ''%'') = (37::nat)"
  "of_char (CHR ''&'') = (38::nat)"
  "of_char (CHR 0x27) = (39::nat)"
  "of_char (CHR ''('') = (40::nat)"
  "of_char (CHR '')'') = (41::nat)"
  "of_char (CHR ''*'') = (42::nat)"
  "of_char (CHR ''+'') = (43::nat)"
  "of_char (CHR '','') = (44::nat)"
  "of_char (CHR ''-'') = (45::nat)"
  "of_char (CHR ''.'') = (46::nat)"
  "of_char (CHR ''/'') = (47::nat)"
  "of_char (CHR ''0'') = (48::nat)"
  "of_char (CHR ''1'') = (49::nat)"
  "of_char (CHR ''2'') = (50::nat)"
  "of_char (CHR ''3'') = (51::nat)"
  "of_char (CHR ''4'') = (52::nat)"
  "of_char (CHR ''5'') = (53::nat)"
  "of_char (CHR ''6'') = (54::nat)"
  "of_char (CHR ''7'') = (55::nat)"
  "of_char (CHR ''8'') = (56::nat)"
  "of_char (CHR ''9'') = (57::nat)"
  "of_char (CHR '':'') = (58::nat)"
  "of_char (CHR '';'') = (59::nat)"
  "of_char (CHR ''<'') = (60::nat)"
  "of_char (CHR ''='') = (61::nat)"
  "of_char (CHR ''>'') = (62::nat)"
  "of_char (CHR ''?'') = (63::nat)"
  "of_char (CHR ''@'') = (64::nat)"
  "of_char (CHR ''A'') = (65::nat)"
  "of_char (CHR ''B'') = (66::nat)"
  "of_char (CHR ''C'') = (67::nat)"
  "of_char (CHR ''D'') = (68::nat)"
  "of_char (CHR ''E'') = (69::nat)"
  "of_char (CHR ''F'') = (70::nat)"
  "of_char (CHR ''G'') = (71::nat)"
  "of_char (CHR ''H'') = (72::nat)"
  "of_char (CHR ''I'') = (73::nat)"
  "of_char (CHR ''J'') = (74::nat)"
  "of_char (CHR ''K'') = (75::nat)"
  "of_char (CHR ''L'') = (76::nat)"
  "of_char (CHR ''M'') = (77::nat)"
  "of_char (CHR ''N'') = (78::nat)"
  "of_char (CHR ''O'') = (79::nat)"
  "of_char (CHR ''P'') = (80::nat)"
  "of_char (CHR ''Q'') = (81::nat)"
  "of_char (CHR ''R'') = (82::nat)"
  "of_char (CHR ''S'') = (83::nat)"
  "of_char (CHR ''T'') = (84::nat)"
  "of_char (CHR ''U'') = (85::nat)"
  "of_char (CHR ''V'') = (86::nat)"
  "of_char (CHR ''W'') = (87::nat)"
  "of_char (CHR ''X'') = (88::nat)"
  "of_char (CHR ''Y'') = (89::nat)"
  "of_char (CHR ''Z'') = (90::nat)"
  "of_char (CHR ''['') = (91::nat)"
  "of_char (CHR 0x5C) = (92::nat)"
  "of_char (CHR '']'') = (93::nat)"
  "of_char (CHR ''^'') = (94::nat)"
  "of_char (CHR ''_'') = (95::nat)"
  "of_char (CHR ''`'') = (96::nat)"
  "of_char (CHR ''a'') = (97::nat)"
  "of_char (CHR ''b'') = (98::nat)"
  "of_char (CHR ''c'') = (99::nat)"
  "of_char (CHR ''d'') = (100::nat)"
  "of_char (CHR ''e'') = (101::nat)"
  "of_char (CHR ''f'') = (102::nat)"
  "of_char (CHR ''g'') = (103::nat)"
  "of_char (CHR ''h'') = (104::nat)"
  "of_char (CHR ''i'') = (105::nat)"
  "of_char (CHR ''j'') = (106::nat)"
  "of_char (CHR ''k'') = (107::nat)"
  "of_char (CHR ''l'') = (108::nat)"
  "of_char (CHR ''m'') = (109::nat)"
  "of_char (CHR ''n'') = (110::nat)"
  "of_char (CHR ''o'') = (111::nat)"
  "of_char (CHR ''p'') = (112::nat)"
  "of_char (CHR ''q'') = (113::nat)"
  "of_char (CHR ''r'') = (114::nat)"
  "of_char (CHR ''s'') = (115::nat)"
  "of_char (CHR ''t'') = (116::nat)"
  "of_char (CHR ''u'') = (117::nat)"
  "of_char (CHR ''v'') = (118::nat)"
  "of_char (CHR ''w'') = (119::nat)"
  "of_char (CHR ''x'') = (120::nat)"
  "of_char (CHR ''y'') = (121::nat)"
  "of_char (CHR ''z'') = (122::nat)"
  "of_char (CHR ''{'') = (123::nat)"
  "of_char (CHR ''|'') = (124::nat)"
  "of_char (CHR ''}'') = (125::nat)"
  "of_char (CHR ''~'') = (126::nat)"
  by simp_all

section \<open>Properties of the diff engine\<close>

lemma split_on_nonempty: "split_on c s \<noteq> []"
  by (induction s) (auto split: list.splits)

lemma split_on_no_sep: "l \<in> set (split_on c s) \<Longrightarrow> c \<notin> set l"
  by (induction s arbitrary: l) (auto split: list.splits if_splits)

lemma split_on_single: "c \<notin> set l \<Longrightarrow> split_on c l = [l]"
  by (induction l) auto

lemma split_on_append: "c \<notin> set l \<Longrightarrow> split_on c (l @ c # r) = l # split_on c r"
  by (induction l) auto

lemma split_on_join:
  "ls \<noteq> [] \<Longrightarrow> list_all (\<lambda>l. c \<notin> set l) ls \<Longrightarrow> split_on c (join [c] ls) = ls"
  by (induction "[c]" ls rule: join.induct) (auto simp: split_on_single split_on_append)

text \<open>Rounding leaves a natural number up to \<open>2^53\<close> as it is, and gives a natural
  number or \<open>Infinity\<close> for every natural number.\<close>

lemma real_nat_is_int: "\<exists>i. real n = real_of_int i"
  by (rule exI [of _ "int n"]) simp

lemma roundSignificand_exact: "n < 2 ^ 53 \<Longrightarrow> roundSignificand (real n) = int n"
proof -
  assume "n < 2 ^ 53"
  then have "real n < 2 ^ 53"
    by (metis of_nat_less_iff of_nat_numeral of_nat_power)
  then show ?thesis
    by (simp add: roundSignificand_def)
qed

lemma roundSignificand_two_53: "roundSignificand 9007199254740992 = 9007199254740992"
  by (simp add: roundSignificand_def Let_def)

lemma roundSignificand_two_53_plus_1: "roundSignificand 9007199254740993 = 9007199254740992"
  by (simp add: roundSignificand_def Let_def)

lemma roundSignificand_two_53_plus_2: "roundSignificand 9007199254740994 = 9007199254740994"
  by (simp add: roundSignificand_def Let_def)

lemma roundDouble_exact: "n \<le> 2 ^ 53 \<Longrightarrow> roundDouble (real n) = Fin (real n)"
proof (cases "n = 2 ^ 53")
  case True
  then show ?thesis
    by (simp add: roundDouble_def roundSignificand_two_53)
next
  case False
  assume le: "n \<le> 2 ^ 53"
  with False have r: "roundSignificand (real n) = int n"
    by (simp add: roundSignificand_exact)
  from le have "int n \<le> int (2 ^ 53)"
    by (simp only: of_nat_le_iff)
  then have "\<not> 2 ^ 1024 \<le> int n"
    by simp
  then show ?thesis
    by (simp add: roundDouble_def Let_def r real_nat_is_int)
qed

lemma roundSignificand_nonneg: "0 \<le> y \<Longrightarrow> 0 \<le> roundSignificand y"
  by (simp add: roundSignificand_def Let_def del: bitLength.simps)

lemma roundDouble_natural: "naturalOrInfinity (roundDouble (real n))"
  using roundSignificand_nonneg [of "real n"]
  by (simp add: roundDouble_def naturalOrInfinity_def Let_def real_nat_is_int)

lemma natural_number: "naturalOrInfinity (Fin a) \<Longrightarrow> \<exists>n. a = real n"
proof -
  assume "naturalOrInfinity (Fin a)"
  then obtain i where "0 \<le> a" "a = real_of_int i"
    by (auto simp: naturalOrInfinity_def)
  then have "a = real (nat i)"
    by simp
  then show ?thesis ..
qed

text \<open>The end line of a hunk of \<open>k\<close> lines that starts at line \<open>a\<close>, as long as
  \<open>a + k\<close> is at most \<open>2^53\<close>.\<close>

lemma numSub_one_exact:
  assumes "0 < m" and "m \<le> 2 ^ 53"
  shows "numSub (Fin (real m)) (Fin 1) = Fin (real m - 1)"
proof -
  have le: "m - 1 \<le> 2 ^ 53"
    using assms(2) by simp
  have eq: "real m - 1 = real (m - 1)"
    using assms(1) by (simp add: of_nat_diff)
  have "numSub (Fin (real m)) (Fin 1) = roundDouble (real m - 1)"
    by (simp add: numSub_def numNeg_def)
  also have "\<dots> = roundDouble (real (m - 1))"
    by (simp only: eq)
  also have "\<dots> = Fin (real (m - 1))"
    by (rule roundDouble_exact [OF le])
  finally show ?thesis
    by (simp only: eq)
qed

lemma end_line_exact:
  assumes "naturalOrInfinity (Fin a)" and "0 < k" and "a + real k \<le> 2 ^ 53"
  shows "numSub (numAdd (Fin a) (Fin (real k))) (Fin 1) = Fin (a + real k - 1)"
proof -
  obtain n where n: "a = real n"
    using natural_number [OF assms(1)] ..
  have "real (n + k) \<le> 2 ^ 53"
    using assms(3) by (simp add: n)
  then have le: "n + k \<le> 2 ^ 53"
    by (metis of_nat_le_iff of_nat_numeral of_nat_power)
  have pos: "0 < n + k"
    using assms(2) by simp
  have "numAdd (Fin a) (Fin (real k)) = roundDouble (real (n + k))"
    by (simp add: n)
  also have "\<dots> = Fin (real (n + k))"
    by (rule roundDouble_exact [OF le])
  finally have "numSub (numAdd (Fin a) (Fin (real k))) (Fin 1) = Fin (real (n + k) - 1)"
    using numSub_one_exact [OF pos le] by (simp only:)
  then show ?thesis
    by (simp add: n)
qed

lemma line_count_exact:
  assumes "naturalOrInfinity (Fin a)" and "0 < k" and "a + real k \<le> 2 ^ 53"
  shows "numAdd (numSub (Fin (a + real k - 1)) (Fin a)) (Fin 1) = Fin (real k)"
proof -
  obtain n where n: "a = real n"
    using natural_number [OF assms(1)] ..
  have "real (n + k) \<le> 2 ^ 53"
    using assms(3) by (simp add: n)
  then have "n + k \<le> 2 ^ 53"
    by (metis of_nat_le_iff of_nat_numeral of_nat_power)
  then have le: "k - 1 \<le> 2 ^ 53" "k \<le> 2 ^ 53"
    by simp_all
  have eq: "real k - 1 = real (k - 1)"
    using assms(2) by (simp add: of_nat_diff)
  have "numSub (Fin (a + real k - 1)) (Fin a) = roundDouble (real k - 1)"
    by (simp add: numSub_def numNeg_def)
  also have "\<dots> = roundDouble (real (k - 1))"
    by (simp only: eq)
  also have "\<dots> = Fin (real (k - 1))"
    by (rule roundDouble_exact [OF le(1)])
  also have "\<dots> = Fin (real k - 1)"
    by (simp only: eq)
  finally have "numAdd (numSub (Fin (a + real k - 1)) (Fin a)) (Fin 1) = roundDouble (real k)"
    by simp
  also have "\<dots> = Fin (real k)"
    by (rule roundDouble_exact [OF le(2)])
  finally show ?thesis .
qed

lemma flushHunk_inv: "hunkInv st \<Longrightarrow> hunkInv (flushHunk path st)"
  by (auto simp: hunkInv_def flushHunk_def Let_def chunkInv_def split_on_join)

lemma not_added_and_removed: "addedLine l \<Longrightarrow> \<not> removedLine l"
  by (auto simp: addedLine_def removedLine_def startsWith_def)

lemma parseLine_no_header:
  "hunkPattern line = None \<Longrightarrow>
   parseLine path st line =
     (if numLt (Fin 0) (currentStartLine st)
      then (if addedLine line
            then st\<lparr>currentHunkLines := currentHunkLines st @ [line], hasAdditions := True\<rparr>
            else if removedLine line
            then st\<lparr>currentHunkLines := currentHunkLines st @ [line], hasDeletions := True\<rparr>
            else st\<lparr>currentHunkLines := currentHunkLines st @ [line]\<rparr>)
      else st)"
  by (simp add: parseLine_def addedLine_def removedLine_def Let_def)

lemma parseLine_inv: "10 \<notin> set line \<Longrightarrow> hunkInv st \<Longrightarrow> hunkInv (parseLine path st line)"
proof (cases "hunkPattern line")
  case (Some g2)
  assume "hunkInv st"
  then have "hunkInv (flushHunk path st)"
    by (rule flushHunk_inv)
  then show ?thesis
    using Some by (simp add: parseLine_def hunkInv_def parseInt_def roundDouble_natural)
next
  case None
  assume nl: "10 \<notin> set line" and inv: "hunkInv st"
  have ar: "addedLine line \<Longrightarrow> \<not> removedLine line"
    by (rule not_added_and_removed)
  show ?thesis
    unfolding parseLine_no_header [OF None]
    using nl inv ar by (auto simp: hunkInv_def)
qed

lemma foldl_parseLine_inv:
  "list_all (\<lambda>l. 10 \<notin> set l) ls \<Longrightarrow> hunkInv st \<Longrightarrow> hunkInv (foldl (parseLine path) st ls)"
  by (induction ls arbitrary: st) (auto simp: parseLine_inv)

lemma parseBlock_inv: "list_all chunkInv cs \<Longrightarrow> list_all chunkInv (parseBlock cs block)"
proof -
  assume cs: "list_all chunkInv cs"
  have nl: "list_all (\<lambda>l. 10 \<notin> set l) (split_on 10 block)"
    by (auto simp: list_all_iff dest: split_on_no_sep)
  show ?thesis
  proof (cases "matchFilePath (hd (split_on 10 block))")
    case None
    then show ?thesis using cs by (simp add: parseBlock_def)
  next
    case (Some m)
    let ?st0 = "\<lparr>currentHunkLines = [], currentStartLine = Fin 0, hasAdditions = False,
                 hasDeletions = False, chunks = cs\<rparr>"
    have "hunkInv ?st0" using cs by (simp add: hunkInv_def naturalOrInfinity_def)
    then have "hunkInv (flushHunk (trim m) (foldl (parseLine (trim m)) ?st0 (split_on 10 block)))"
      using nl by (intro flushHunk_inv foldl_parseLine_inv)
    then show ?thesis using Some by (simp add: parseBlock_def hunkInv_def Let_def)
  qed
qed

lemma foldl_parseBlock_inv:
  "list_all chunkInv cs \<Longrightarrow> list_all chunkInv (foldl parseBlock cs blocks)"
  by (induction blocks arbitrary: cs) (auto simp: parseBlock_inv)

lemma parse_inv: "list_all chunkInv (parse diff)"
  by (simp add: parse_def foldl_parseBlock_inv)

text \<open>The definitions that running the parser on a concrete diff unfolds, and the
  arithmetic on the line numbers of the examples.\<close>

lemma roundDouble_numeral:
  "numeral k \<le> (2 ^ 53 :: nat) \<Longrightarrow> roundDouble (numeral k) = Fin (numeral k)"
  using roundDouble_exact [of "numeral k"] by simp

lemma roundDouble_0_1: "roundDouble 0 = Fin 0" "roundDouble 1 = Fin 1"
  using roundDouble_exact [of 0] roundDouble_exact [of 1] by simp_all

lemma roundDouble_two_53_plus_1: "roundDouble 9007199254740993 = Fin 9007199254740992"
  by (simp add: roundDouble_def roundSignificand_two_53_plus_1)

lemma roundDouble_two_53_plus_2: "roundDouble 9007199254740994 = Fin 9007199254740994"
  by (simp add: roundDouble_def roundSignificand_two_53_plus_2)

lemmas number_eval = numLt_def numSub_def numNeg_def roundDouble_numeral roundDouble_0_1
  roundDouble_two_53_plus_1 roundDouble_two_53_plus_2

lemmas string_eval = ascii_codes LineTerminator_def WhiteSpace_def Digit_def WordChar_def Canonicalize_def
  startsWith_def endsWith_def trim_def litAt_def wordBoundary_def wordAfter_def wordsMatch_def
  testWords_def countWords_def parseInt_def showInt_def Let_def

lemmas diff_eval = dropLit_def dropDigits_def dropCommaDigits_def hunkPattern_def
  testFunction_def testImportChange_def testAuthLogic_def flushHunk_def parseLine_def
  parseBlock_def parse_def addedLine_def removedLine_def number_eval

lemma parse_diffAddition: "parse diffAddition = [chunkAddition]"
  by (simp add: diffAddition_def chunkAddition_def string_eval diff_eval del: of_char_Char)

lemma parse_diffContextOnly: "parse diffContextOnly = [chunkContextOnly]"
  by (simp add: diffContextOnly_def chunkContextOnly_def string_eval diff_eval del: of_char_Char)

lemma parse_diffImport: "parse diffImport = [chunkImport]"
  by (simp add: diffImport_def chunkImport_def string_eval diff_eval del: of_char_Char)

lemma parse_diffHugeLine: "parse diffHugeLine = [chunkHugeLine]"
  by (simp add: diffHugeLine_def chunkHugeLine_def string_eval diff_eval del: of_char_Char)

lemma parse_diffHugeLineOne: "parse diffHugeLineOne = [chunkHugeLineOne]"
  by (simp add: diffHugeLineOne_def chunkHugeLineOne_def string_eval diff_eval del: of_char_Char)

text \<open>
  C4, as the claim states it, fails: line numbers are doubles, and from \<open>2^53\<close> on a sum
  is rounded. Both hunks below start at line \<open>2^53\<close>.

  The first has two lines. \<open>2^53 + 2\<close> is a double; \<open>2^53 + 2 - 1\<close> lies halfway
  between the doubles \<open>2^53\<close> and \<open>2^53 + 2\<close> and is rounded to \<open>2^53\<close>, whose
  significand is even. So the end line is the start line, not the start line plus one, and
  \<open>endLine - startLine + 1\<close> is 1 for a content of two lines.

  The second has one line. \<open>2^53 + 1\<close> is rounded to \<open>2^53\<close>, and \<open>2^53 - 1\<close> is a
  double. So the end line is the start line minus one, and the start line is greater than
  the end line.
\<close>

theorem parse_line_range_counterexample:
  "chunkHugeLine \<in> set (parse diffHugeLine) \<and>
   startLine chunkHugeLine = Fin 9007199254740992 \<and>
   endLine chunkHugeLine = Fin 9007199254740992 \<and>
   length (split_on 10 (content chunkHugeLine)) = 2 \<and>
   endLine chunkHugeLine \<noteq> Fin (9007199254740992 + 2 - 1) \<and>
   numAdd (numSub (endLine chunkHugeLine) (startLine chunkHugeLine)) (Fin 1) = Fin 1 \<and>
   chunkHugeLineOne \<in> set (parse diffHugeLineOne) \<and>
   startLine chunkHugeLineOne = Fin 9007199254740992 \<and>
   endLine chunkHugeLineOne = Fin 9007199254740991 \<and>
   length (split_on 10 (content chunkHugeLineOne)) = 1 \<and>
   \<not> numLe (startLine chunkHugeLineOne) (endLine chunkHugeLineOne)"
  by (simp add: parse_diffHugeLine parse_diffHugeLineOne)
     (simp add: chunkHugeLine_def chunkHugeLineOne_def number_eval roundDouble_def
        roundSignificand_def)

text \<open>
  C4, amended. For every chunk that \<open>parse\<close> produces, on any input string, whose start
  line \<open>a\<close> and number of content lines \<open>k\<close> have \<open>a + k \<le> 2^53\<close>: the start line is at
  most the end line, and the end line is \<open>a + k - 1\<close>, so that
  \<open>endLine - startLine + 1\<close> is the number of lines of the content. The lines of a content
  are what \<open>content.split('\n')\<close> gives, as where the source itself counts them. (A start
  line that is finite is a natural number; it is \<open>Infinity\<close> for a header with some 309
  digits or more.)
\<close>

theorem parse_line_range:
  assumes "c \<in> set (parse diff)"
    and "startLine c = Fin a"
    and "a + real (length (split_on 10 (content c))) \<le> 2 ^ 53"
  shows "numLe (startLine c) (endLine c) \<and>
         endLine c = Fin (a + real (length (split_on 10 (content c))) - 1) \<and>
         numAdd (numSub (endLine c) (startLine c)) (Fin 1) =
           Fin (real (length (split_on 10 (content c))))"
proof -
  define k where "k = length (split_on 10 (content c))"
  have inv: "chunkInv c"
    using assms(1) parse_inv [of diff] by (simp add: list_all_iff)
  have k: "0 < k"
    using split_on_nonempty [of 10 "content c"] by (simp add: k_def)
  have nat: "naturalOrInfinity (Fin a)"
    using inv assms(2) by (simp add: chunkInv_def Let_def)
  have bound: "a + real k \<le> 2 ^ 53"
    using assms(3) by (simp only: k_def)
  have "endLine c = numSub (numAdd (Fin a) (Fin (real k))) (Fin 1)"
    using inv assms(2) by (simp add: chunkInv_def Let_def k_def)
  then have e: "endLine c = Fin (a + real k - 1)"
    using end_line_exact [OF nat k bound] by simp
  have "1 \<le> real k"
    using k by simp
  then have "numLe (Fin a) (Fin (a + real k - 1))"
    by simp
  then show ?thesis
    using line_count_exact [OF nat k bound] by (simp only: e assms(2) k_def [symmetric] simp_thms)
qed

theorem parse_line_range_witness:
  "chunkAddition \<in> set (parse diffAddition) \<and>
   startLine chunkAddition = Fin 7 \<and>
   length (split_on 10 (content chunkAddition)) = 2 \<and>
   (7::real) + real (length (split_on 10 (content chunkAddition))) \<le> 2 ^ 53 \<and>
   numLe (startLine chunkAddition) (endLine chunkAddition) \<and>
   endLine chunkAddition = Fin 8 \<and>
   numAdd (numSub (endLine chunkAddition) (startLine chunkAddition)) (Fin 1) = Fin 2"
proof -
  have h: "chunkAddition \<in> set (parse diffAddition)"
    by (simp add: parse_diffAddition)
  have s: "startLine chunkAddition = Fin 7"
    by (simp add: chunkAddition_def)
  have l: "length (split_on 10 (content chunkAddition)) = 2"
    by (simp add: chunkAddition_def)
  have b: "(7::real) + real (length (split_on 10 (content chunkAddition))) \<le> 2 ^ 53"
    by (simp add: l)
  show ?thesis
    using h s l b parse_line_range [OF h s b] by (auto simp: l)
qed

text \<open>
  C5, as the claim states it, fails: a hunk with no added and no removed line (here one
  line of context) is given the kind \<open>deletion\<close>, the last branch of the source's
  three-way choice, although its text has no line that starts with \<open>-\<close>.
\<close>

theorem parse_kind_counterexample:
  "chunkContextOnly \<in> set (parse diffContextOnly) \<and>
   type chunkContextOnly = deletion \<and>
   \<not> list_ex removedLine (split_on 10 (content chunkContextOnly))"
  by (simp add: parse_diffContextOnly)
     (simp add: chunkContextOnly_def removedLine_def string_eval del: of_char_Char)

text \<open>
  C5, amended. For every chunk that \<open>parse\<close> produces: the kind is \<open>modification\<close> iff
  the content has a line that starts with \<open>+\<close> (not \<open>+++\<close>) and a line that starts with
  \<open>-\<close> (not \<open>---\<close>); it is \<open>addition\<close> iff the content has such an added line and no
  such removed line; and it is \<open>deletion\<close> iff the content has no such added line,
  whether it has a removed line or not.
\<close>

theorem parse_kind:
  "c \<in> set (parse diff) \<Longrightarrow>
   (type c = modification \<longleftrightarrow>
      list_ex addedLine (split_on 10 (content c)) \<and>
      list_ex removedLine (split_on 10 (content c))) \<and>
   (type c = addition \<longleftrightarrow>
      list_ex addedLine (split_on 10 (content c)) \<and>
      \<not> list_ex removedLine (split_on 10 (content c))) \<and>
   (type c = deletion \<longleftrightarrow> \<not> list_ex addedLine (split_on 10 (content c)))"
proof -
  assume "c \<in> set (parse diff)"
  then have "chunkInv c"
    using parse_inv [of diff] by (simp add: list_all_iff)
  then show ?thesis
    by (simp add: chunkInv_def Let_def)
qed

theorem parse_kind_witness:
  "chunkImport \<in> set (parse diffImport) \<and>
   type chunkImport = addition \<and>
   list_ex addedLine (split_on 10 (content chunkImport)) \<and>
   \<not> list_ex removedLine (split_on 10 (content chunkImport))"
proof -
  have h: "chunkImport \<in> set (parse diffImport)"
    by (simp add: parse_diffImport)
  have "type chunkImport = addition"
    by (simp add: chunkImport_def)
  then show ?thesis
    using h parse_kind [OF h] by simp
qed

text \<open>
  C6 does not hold of the code: the pattern for an import change is anchored with \<open>^\<close>
  and has no \<open>m\<close> flag, so it is tried at the start of the hunk text only. In the hunk
  below the second line is \<open>+import x\<close>, and the flag is false.
\<close>

theorem parse_import_flag_first_line_only:
  "parse diffImport = [chunkImport] \<and>
   split_on 10 (content chunkImport) = [js '' a'', js ''+import x''] \<and>
   testImportChange (js ''+import x'') \<and>
   \<not> containsImportChange (metadata chunkImport)"
  by (simp add: parse_diffImport)
     (simp add: chunkImport_def testImportChange_def string_eval del: of_char_Char)

section \<open>Properties of the risk analyzer\<close>

lemma rule_inv: "(fires \<Longrightarrow> 0 < points) \<Longrightarrow> ruleInv sr \<Longrightarrow> ruleInv (rule fires points reason sr)"
  by (auto simp: ruleInv_def rule_def)

lemma ruleInv_if: "ruleInv a \<Longrightarrow> ruleInv b \<Longrightarrow> ruleInv (if c then a else b)"
  by simp

lemma report_of_rules:
  assumes "ruleInv sr"
    and "r = \<lparr>RiskReport.filePath = p, score = min (fst sr) 100,
              level = (if min (fst sr) 100 \<ge> 60 then high
                       else if min (fst sr) 100 \<ge> 30 then medium else low),
              reasons = (if length (snd sr) = 0
                         then snd sr @ [js ''No significant risk factors identified'']
                         else snd sr)\<rparr>"
  shows "RiskReport.filePath r = p \<and> 0 \<le> score r \<and> score r \<le> 100 \<and>
         level r = (if score r \<ge> 60 then high else if score r \<ge> 30 then medium else low) \<and>
         reasons r \<noteq> [] \<and>
         (score r = 0 \<longrightarrow> reasons r = [js ''No significant risk factors identified''])"
  using assms by (auto simp: ruleInv_def)

lemma fileReport_sound:
  "RiskReport.filePath (fileReport p cs) = p \<and>
   0 \<le> score (fileReport p cs) \<and> score (fileReport p cs) \<le> 100 \<and>
   level (fileReport p cs) =
     (if score (fileReport p cs) \<ge> 60 then high
      else if score (fileReport p cs) \<ge> 30 then medium else low) \<and>
   reasons (fileReport p cs) \<noteq> [] \<and>
   (score (fileReport p cs) = 0 \<longrightarrow>
      reasons (fileReport p cs) = [js ''No significant risk factors identified''])"
  apply (rule report_of_rules)
   prefer 2
   apply (unfold fileReport_def Let_def)
   apply (rule refl)
  apply (intro rule_inv ruleInv_if)
  apply (simp_all add: ruleInv_def)
  done


lemma first_seen_keys:
  "foldl (\<lambda>ks p. if p \<in> set ks then ks else ks @ [p]) [] ps = rev (remdups (rev ps))"
  by (induction ps rule: rev_induct) auto

lemma groupByFile_step_keys:
  "map fst (foldl (\<lambda>fileMap chunk.
              let existing = (case map_of fileMap (DiffChunk.filePath chunk) of
                                None \<Rightarrow> [] | Some e \<Rightarrow> e)
              in AList.update (DiffChunk.filePath chunk) (existing @ [chunk]) fileMap) m cs) =
   foldl (\<lambda>ks p. if p \<in> set ks then ks else ks @ [p]) (map fst m) (map DiffChunk.filePath cs)"
  by (induction cs arbitrary: m) (simp_all add: update_keys Let_def)

lemma groupByFile_keys:
  "map fst (groupByFile cs) = rev (remdups (rev (map DiffChunk.filePath cs)))"
  unfolding groupByFile_def by (subst groupByFile_step_keys) (simp add: first_seen_keys)

lemma reports_paths:
  "map RiskReport.filePath (reports cs) = rev (remdups (rev (map DiffChunk.filePath cs)))"
proof -
  have "map RiskReport.filePath (reports cs) = map fst (groupByFile cs)"
    by (simp add: reports_def fileReport_sound case_prod_beta)
  then show ?thesis
    by (simp add: groupByFile_keys)
qed

lemma fileReport_quiet:
  assumes "\<not> testAuthDirectory p" "\<not> testSensitiveFile p" "\<not> testMiddleware p"
    "\<not> testDependencyFile p" "\<not> testSchema p"
    "countAuthMatches (join [10] (map content cs)) = 0"
    "countDeletions cs \<le> 20"
    "filter (\<lambda>c. containsImportChange (metadata c)) cs = []"
    "length (filter (\<lambda>c. containsFunction (metadata c)) cs) \<le> 3"
  shows "fileReport p cs =
         \<lparr>RiskReport.filePath = p, score = 0, level = low,
          reasons = [js ''No significant risk factors identified'']\<rparr>"
  using assms by (simp add: fileReport_def rule_def Let_def del: of_char_Char)

lemma path_f_quiet:
  "\<not> testAuthDirectory (js ''f'')" "\<not> testSensitiveFile (js ''f'')" "\<not> testMiddleware (js ''f'')"
  "\<not> testDependencyFile (js ''f'')" "\<not> testSchema (js ''f'')"
  by (simp_all add: testAuthDirectory_def testMiddleware_def testDependencyFile_def testSchema_def
        string_eval ascii_codes del: of_char_Char)

lemma login_not_counted: "countAuthMatches (js ''+login'') = 0"
  by (simp add: countAuthMatches_def string_eval ascii_codes del: of_char_Char)

lemma login_is_auth_logic: "testAuthLogic (js ''+login'')"
  by (simp add: testAuthLogic_def string_eval ascii_codes del: of_char_Char)

lemma parse_diffLogin: "parse diffLogin = [chunkLogin]"
  by (simp add: diffLogin_def chunkLogin_def string_eval diff_eval ascii_codes del: of_char_Char)

lemma fileReport_login: "fileReport (js ''f'') [chunkLogin] = reportF"
  unfolding reportF_def
  by (rule fileReport_quiet)
     (simp_all add: path_f_quiet [simplified] login_not_counted [simplified] chunkLogin_def
        countDeletions_def)

lemma analyze_login: "analyze [chunkLogin] = [reportF]"
  using fileReport_login
  by (simp add: analyze_def reports_def groupByFile_def chunkLogin_def)

lemma fileReport_keywords:
  assumes "\<not> testAuthDirectory p" "\<not> testSensitiveFile p" "\<not> testMiddleware p"
    "\<not> testDependencyFile p" "\<not> testSchema p"
    "countAuthMatches (join [10] (map content cs)) = n" "0 < n"
    "countDeletions cs \<le> 20"
    "filter (\<lambda>c. containsImportChange (metadata c)) cs = []"
    "length (filter (\<lambda>c. containsFunction (metadata c)) cs) \<le> 3"
  shows "fileReport p cs =
         \<lparr>RiskReport.filePath = p, score = min (int n * 5) 20, level = low,
          reasons = [js ''Contains '' @ showNat n @ js '' auth-related keyword(s)'']\<rparr>"
  using assms by (simp add: fileReport_def rule_def Let_def del: of_char_Char)

lemma path_g_quiet:
  "\<not> testAuthDirectory (js ''g'')" "\<not> testSensitiveFile (js ''g'')" "\<not> testMiddleware (js ''g'')"
  "\<not> testDependencyFile (js ''g'')" "\<not> testSchema (js ''g'')"
  by (simp_all add: testAuthDirectory_def testMiddleware_def testDependencyFile_def testSchema_def
        string_eval del: of_char_Char)

lemma jwt_counted: "countAuthMatches (js ''+jwt'') = 1"
  by (simp add: countAuthMatches_def string_eval del: of_char_Char)

lemma fileReport_jwt: "fileReport (js ''g'') [chunkJwt] = reportJwt"
proof -
  have "fileReport (js ''g'') [chunkJwt] =
         \<lparr>RiskReport.filePath = js ''g'', score = min (int 1 * 5) 20, level = low,
          reasons = [js ''Contains '' @ showNat 1 @ js '' auth-related keyword(s)'']\<rparr>"
    by (rule fileReport_keywords)
       (simp_all add: path_g_quiet [simplified] jwt_counted [simplified] chunkJwt_def
          countDeletions_def)
  then show ?thesis
    by (simp add: reportJwt_def)
qed

lemma reports_login_jwt: "reports [chunkLogin, chunkJwt] = [reportF, reportJwt]"
proof -
  have "groupByFile [chunkLogin, chunkJwt] = [(js ''f'', [chunkLogin]), (js ''g'', [chunkJwt])]"
    by (simp add: groupByFile_def chunkLogin_def chunkJwt_def)
  then show ?thesis
    using fileReport_login fileReport_jwt by (simp add: reports_def)
qed

lemma analyze_login_jwt: "analyze [chunkLogin, chunkJwt] = [reportJwt, reportF]"
  by (simp add: analyze_def reports_login_jwt) (simp add: reportF_def reportJwt_def)

text \<open>
  C3. For every list of chunks, every report that the risk analyzer's \<open>analyze\<close> returns
  has an integer score from 0 to 100; its level is \<open>high\<close> when the score is at least
  60, \<open>medium\<close> when it is at least 30 and below 60, and \<open>low\<close> otherwise; and its
  reasons are never empty: when no rule fired, which is when the score is 0, they are the
  one placeholder. The list is sorted by falling score, and reports of equal score keep
  the order of \<open>reports\<close>, the list before the sort, which has one report for each file
  path in the order in which the paths are first seen in the chunks
  (\<open>rev (remdups (rev ps))\<close> keeps the first occurrence of each element of \<open>ps\<close>).
\<close>

theorem analyze_reports:
  "(\<forall>r \<in> set (analyze cs).
      0 \<le> score r \<and> score r \<le> 100 \<and>
      level r = (if score r \<ge> 60 then high else if score r \<ge> 30 then medium else low) \<and>
      reasons r \<noteq> [] \<and>
      (score r = 0 \<longrightarrow> reasons r = [js ''No significant risk factors identified''])) \<and>
   sorted_wrt (\<lambda>a b. score a \<ge> score b) (analyze cs) \<and>
   filter (\<lambda>r. score r = k) (analyze cs) = filter (\<lambda>r. score r = k) (reports cs) \<and>
   map RiskReport.filePath (reports cs) = rev (remdups (rev (map DiffChunk.filePath cs)))"
proof (intro conjI ballI)
  fix r
  assume "r \<in> set (analyze cs)"
  then have "r \<in> set (reports cs)"
    by (simp add: analyze_def)
  then obtain p fcs where r: "r = fileReport p fcs"
    by (auto simp: reports_def)
  show "0 \<le> score r" "score r \<le> 100"
    "level r = (if score r \<ge> 60 then high else if score r \<ge> 30 then medium else low)"
    "reasons r \<noteq> []"
    "score r = 0 \<longrightarrow> reasons r = [js ''No significant risk factors identified'']"
    using fileReport_sound [of p fcs] by (simp_all add: r)
next
  have "sorted (map (\<lambda>r. - score r) (analyze cs))"
    by (simp add: analyze_def)
  then show "sorted_wrt (\<lambda>a b. score a \<ge> score b) (analyze cs)"
    by (simp add: sorted_map)
next
  have "filter (\<lambda>r. - score r = - k) (analyze cs) = filter (\<lambda>r. - score r = - k) (reports cs)"
    unfolding analyze_def by (rule sort_key_stable)
  then show "filter (\<lambda>r. score r = k) (analyze cs) = filter (\<lambda>r. score r = k) (reports cs)"
    by simp
next
  show "map RiskReport.filePath (reports cs) = rev (remdups (rev (map DiffChunk.filePath cs)))"
    by (rule reports_paths)
qed

theorem analyze_reports_witness:
  "analyze [chunkLogin, chunkJwt] = [reportJwt, reportF] \<and>
   reports [chunkLogin, chunkJwt] = [reportF, reportJwt] \<and>
   reportJwt \<in> set (analyze [chunkLogin, chunkJwt]) \<and>
   0 \<le> score reportJwt \<and> score reportJwt \<le> 100 \<and> level reportJwt = low \<and>
   reasons reportJwt \<noteq> [] \<and>
   sorted_wrt (\<lambda>a b. score a \<ge> score b) [reportJwt, reportF] \<and>
   map RiskReport.filePath [reportF, reportJwt] =
     rev (remdups (rev (map DiffChunk.filePath [chunkLogin, chunkJwt])))"
proof -
  have h: "reportJwt \<in> set (analyze [chunkLogin, chunkJwt])"
    by (simp add: analyze_login_jwt)
  have l: "level reportJwt = low"
    by (simp add: reportJwt_def)
  show ?thesis
    using h l analyze_reports [of "[chunkLogin, chunkJwt]" 5]
    by (simp add: analyze_login_jwt reports_login_jwt)
qed

text \<open>
  C7 does not hold of the code: the risk analyzer counts the matches of
  \<open>auth\<close>, \<open>token\<close>, \<open>password\<close>, \<open>credential\<close>, \<open>secret\<close>, \<open>jwt\<close>, \<open>oauth\<close> and
  \<open>session\<close> only, without the \<open>login\<close> and \<open>logout\<close> that the diff engine's pattern
  for the same flag has. On the hunk that adds the line \<open>login\<close> the diff engine sets
  \<open>containsAuthLogic\<close>, the count of the risk analyzer is 0, the keyword rule does not
  fire and the score of the file is 0, where the claim gives 5 points.
\<close>

theorem risk_keywords_login_not_counted:
  "parse diffLogin = [chunkLogin] \<and>
   content chunkLogin = js ''+login'' \<and>
   testAuthLogic (content chunkLogin) \<and>
   countAuthMatches (content chunkLogin) = 0 \<and>
   analyze (parse diffLogin) = [reportF] \<and>
   score reportF = 0"
  using parse_diffLogin analyze_login login_is_auth_logic login_not_counted
  by (simp add: chunkLogin_def reportF_def)

section \<open>Properties of the review engine\<close>

text \<open>
  The two ways a call of \<open>reviewChunk\<close> goes when the call of the service rejects: the
  read of \<open>message\<close> gives a value, and the result is the one of the first \<open>catch\<close>; or
  the rejection is \<open>undefined\<close> or \<open>null\<close>, the read throws a \<open>TypeError\<close>, and
  \<open>reviewChunk\<close> rejects with it.
\<close>

lemma reviewChunk_rejected:
  assumes "ask copilot (buildPrompt toStr reviewMode chunk) modelId s = (Inl err, s')"
    and "getProp err (js ''message'') = Inr err_message"
  shows "reviewChunk JSON_parse toStr copilot chunk reviewMode modelId s =
     (Inr \<lparr>chunkId = DiffChunk.filePath chunk @ js '':'' @
                     ToString toStr (JNumber (startLine chunk)) @ js ''-'' @
                     ToString toStr (JNumber (endLine chunk)),
           filePath = DiffChunk.filePath chunk,
           mode = reviewMode,
           suggestions = JArray [],
           summary = JString (js ''Copilot unavailable: '' @ ToString toStr err_message),
           riskLevel = JString (js ''low''),
           modelUsed = getModelName copilot s'\<rparr>, s')"
  using assms by (simp add: reviewChunk_def Let_def bindE_def del: of_char_Char)

lemma reviewChunk_rejected_nullish:
  assumes "ask copilot (buildPrompt toStr reviewMode chunk) modelId s = (Inl err, s')"
    and "err = JUndefined \<or> err = JNull"
  shows "reviewChunk JSON_parse toStr copilot chunk reviewMode modelId s = (Inl TypeError, s')"
  using assms by (auto simp: reviewChunk_def Let_def bindE_def getProp_def simp del: of_char_Char)

lemma getProp_throws: "getProp v k = Inl e \<longleftrightarrow> (v = JUndefined \<or> v = JNull) \<and> e = TypeError"
  by (cases v) (auto simp: getProp_def)

lemma reviewChunk_answered:
  assumes "ask copilot (buildPrompt toStr reviewMode chunk) modelId s = (Inr rawResponse, s')"
  shows "reviewChunk JSON_parse toStr copilot chunk reviewMode modelId s =
     (case JSON_parse (stripCodeFences rawResponse) of
        None \<Rightarrow> (Inr (fallbackResult toStr copilot chunk reviewMode rawResponse s'), s')
      | Some parsed \<Rightarrow>
          if parsed = JUndefined \<or> parsed = JNull
          then (Inr (fallbackResult toStr copilot chunk reviewMode rawResponse s'), s')
          else
            (Inr \<lparr>chunkId = DiffChunk.filePath chunk @ js '':'' @
                             ToString toStr (JNumber (startLine chunk)) @ js ''-'' @
                             ToString toStr (JNumber (endLine chunk)),
                  filePath = DiffChunk.filePath chunk,
                  mode = reviewMode,
                  suggestions =
                    nullish (case getProp parsed (js ''suggestions'') of Inr v \<Rightarrow> v | Inl e \<Rightarrow> JUndefined)
                      (JArray []),
                  summary =
                    nullish (case getProp parsed (js ''summary'') of Inr v \<Rightarrow> v | Inl e \<Rightarrow> JUndefined)
                      (JString []),
                  riskLevel =
                    nullish (case getProp parsed (js ''riskLevel'') of Inr v \<Rightarrow> v | Inl e \<Rightarrow> JUndefined)
                      (JString (js ''low'')),
                  modelUsed = getModelName copilot s'\<rparr>, s'))"
proof (cases "JSON_parse (stripCodeFences rawResponse)")
  case None
  then show ?thesis
    using assms
    by (simp add: reviewChunk_def Let_def parseE_def bindE_def try_catch_def fallbackResult_def
          del: of_char_Char)
next
  case (Some parsed)
  then show ?thesis
    using assms
    by (cases parsed)
       (simp_all add: reviewChunk_def Let_def parseE_def bindE_def try_catch_def
          fallbackResult_def getProp_def del: of_char_Char)
qed

text \<open>
  So \<open>reviewChunk\<close> returns a result unless the call of the service rejects with
  \<open>undefined\<close> or \<open>null\<close>, and then it throws.
\<close>

lemma reviewChunk_returns_iff:
  "(\<exists>r. fst (reviewChunk JSON_parse toStr copilot chunk reviewMode modelId s) = Inr r) \<longleftrightarrow>
   fst (ask copilot (buildPrompt toStr reviewMode chunk) modelId s) \<noteq> Inl JUndefined \<and>
   fst (ask copilot (buildPrompt toStr reviewMode chunk) modelId s) \<noteq> Inl JNull"
proof -
  obtain answer s' where a: "ask copilot (buildPrompt toStr reviewMode chunk) modelId s = (answer, s')"
    by (cases "ask copilot (buildPrompt toStr reviewMode chunk) modelId s")
  show ?thesis
  proof (cases answer)
    case (Inl err)
    show ?thesis
    proof (cases "getProp err (js ''message'')")
      case (Inl e)
      then have "err = JUndefined \<or> err = JNull"
        by (simp add: getProp_throws)
      with a \<open>answer = Inl err\<close> show ?thesis
        by (auto simp: reviewChunk_rejected_nullish)
    next
      case (Inr err_message)
      then have "err \<noteq> JUndefined" "err \<noteq> JNull"
        by (auto simp: getProp_def)
      with a \<open>answer = Inl err\<close> Inr show ?thesis
        by (simp add: reviewChunk_rejected)
    qed
  next
    case (Inr rawResponse)
    with a show ?thesis
      by (simp add: reviewChunk_answered split: option.split)
  qed
qed

text \<open>Running the review on the examples.\<close>

lemmas fence_eval = stripCodeFences_def closingFenceAt_def

lemma strip_responseNumber: "stripCodeFences responseNumber = responseNumber"
  by (simp add: responseNumber_def fence_eval string_eval del: of_char_Char)

lemma fences_responseRoundTrip:
  "stripClosingFence (stripOpeningFence True responseRoundTrip) = responseRoundTrip"
  "trim responseRoundTrip = responseRoundTrip"
  by (simp_all add: responseRoundTrip_def fence_eval string_eval del: of_char_Char)

lemma strip_responseFenceInString: "stripCodeFences responseFenceInString = responseFenceStripped"
  by (simp add: responseFenceInString_def responseFenceStripped_def fence_eval string_eval
        del: of_char_Char)

lemma strip_responseCategories: "stripCodeFences responseCategories = responseCategories"
  by (simp add: responseCategories_def fence_eval string_eval del: of_char_Char)

lemma JSON_parse_examples_values:
  "JSON_parse_examples responseNumber = Some (JNumber (Fin 42))"
  "JSON_parse_examples responseRoundTrip = Some (JObject parsedRoundTrip)"
  "JSON_parse_examples responseFenceInString = Some (JObject parsedFenceInString)"
  "JSON_parse_examples responseFenceStripped = Some (JObject parsedFenceStripped)"
  "JSON_parse_examples responseCategories = Some (JObject parsedCategories)"
  by (simp_all add: JSON_parse_examples_def responseNumber_def responseRoundTrip_def
        responseFenceInString_def responseFenceStripped_def responseCategories_def
        ascii_codes del: of_char_Char)

lemma strip_responseProse: "stripCodeFences responseProse = responseProse"
  by (simp add: responseProse_def fence_eval string_eval del: of_char_Char)

lemma JSON_parse_examples_prose: "JSON_parse_examples responseProse = None"
  by (simp add: JSON_parse_examples_def responseNumber_def responseRoundTrip_def
        responseFenceInString_def responseFenceStripped_def responseCategories_def
        responseProse_def ascii_codes del: of_char_Char)

lemma chunkId_login:
  "DiffChunk.filePath chunkLogin @ js '':'' @ ToString toStr (JNumber (startLine chunkLogin)) @
   js ''-'' @ ToString toStr (JNumber (endLine chunkLogin)) = js ''f:1-1''"
  by (simp add: chunkLogin_def ToString_def showInt_def)

lemma ask_answering:
  "ask (copilotAnswering text) prompt modelId s = (Inr text, s)"
  by (simp add: copilotAnswering_def)

lemma ask_rejecting:
  "ask (copilotRejecting err) prompt modelId s = (Inl err, s)"
  by (simp add: copilotRejecting_def)

lemma ToString_text:
  "ToString toStr (JString t) = t"
  "ToString toStr JUndefined = js ''undefined''"
  by (simp_all add: ToString_def)

lemma message_errorQuota: "getProp errorQuota (js ''message'') = Inr (JString (js ''quota exceeded''))"
  by (simp add: errorQuota_def getProp_def)

lemma message_of_string: "getProp (JString t) (js ''message'') = Inr JUndefined"
  by (simp add: getProp_def)

lemma modelName_unknown:
  "getModelName (copilotAnswering text) s = js ''unknown''"
  "getModelName (copilotRejecting err) s = js ''unknown''"
  by (simp_all add: getModelName_def copilotAnswering_def copilotRejecting_def)

lemma review_rejected:
  "reviewChunk JSON_parse_examples ToString_examples (copilotRejecting errorQuota) chunkLogin general
     None () =
     (Inr (reviewOfLogin (JArray []) (JString (js ''Copilot unavailable: quota exceeded''))
             (JString (js ''low''))), ())"
  by (subst reviewChunk_rejected [OF ask_rejecting message_errorQuota])
     (simp add: chunkId_login [simplified] modelName_unknown reviewOfLogin_def ToString_text,
      simp add: chunkLogin_def)

lemma review_rejected_string:
  "reviewChunk JSON_parse_examples ToString_examples (copilotRejecting (JString (js ''quota exceeded'')))
     chunkLogin general None () =
     (Inr (reviewOfLogin (JArray []) (JString (js ''Copilot unavailable: undefined''))
             (JString (js ''low''))), ())"
  by (subst reviewChunk_rejected [OF ask_rejecting message_of_string])
     (simp add: chunkId_login [simplified] modelName_unknown reviewOfLogin_def ToString_text,
      simp add: chunkLogin_def)

lemma review_rejected_nullish:
  "reviewChunk JSON_parse_examples ToString_examples (copilotRejecting JUndefined) chunkLogin general
     None () = (Inl TypeError, ())"
  "reviewChunk JSON_parse_examples ToString_examples (copilotRejecting JNull) chunkLogin general
     None () = (Inl TypeError, ())"
  by (simp_all add: reviewChunk_rejected_nullish [OF ask_rejecting])

lemma review_number:
  "reviewChunk JSON_parse_examples ToString_examples (copilotAnswering responseNumber) chunkLogin
     general None () =
     (Inr (reviewOfLogin (JArray []) (JString []) (JString (js ''low''))), ())"
  by (subst reviewChunk_answered [OF ask_answering])
     (simp add: strip_responseNumber JSON_parse_examples_values chunkId_login [simplified] modelName_unknown
        reviewOfLogin_def getProp_def nullish_def, simp add: chunkLogin_def)

lemma review_fence_in_string:
  "reviewChunk JSON_parse_examples ToString_examples (copilotAnswering responseFenceInString)
     chunkLogin general None () =
     (Inr (reviewOfLogin (JArray []) (JString [8232]) (JString (js ''low''))), ())"
  by (subst reviewChunk_answered [OF ask_answering])
     (simp add: strip_responseFenceInString JSON_parse_examples_values chunkId_login [simplified]
        modelName_unknown parsedFenceStripped_def reviewOfLogin_def getProp_def nullish_def,
      simp add: chunkLogin_def)

lemma review_prose:
  "reviewChunk JSON_parse_examples ToString_examples (copilotAnswering responseProse) chunkLogin
     general None () =
     (Inr (reviewOfLogin
             (JArray [JObject [(js ''line'', JNumber (Fin 1)),
                               (js ''severity'', JString (js ''info'')),
                               (js ''message'', JString responseProse)]])
             (JString (js ''Review completed (unstructured response)''))
             (JString (js ''low''))), ())"
  by (subst reviewChunk_answered [OF ask_answering])
     (simp add: strip_responseProse JSON_parse_examples_prose chunkId_login [simplified] modelName_unknown
        reviewOfLogin_def fallbackResult_def, simp add: chunkLogin_def)

lemma review_round_trip:
  "reviewChunk JSON_parse_examples ToString_examples (copilotAnswering responseRoundTrip) chunkLogin
     general None () =
     (Inr (reviewOfLogin (JArray []) (JString (js ''ok'')) (JString (js ''high''))), ())"
  by (subst reviewChunk_answered [OF ask_answering])
     (simp add: stripCodeFences_def fences_responseRoundTrip JSON_parse_examples_values
        chunkId_login [simplified] modelName_unknown parsedRoundTrip_def reviewOfLogin_def getProp_def
        nullish_def, simp add: chunkLogin_def)

text \<open>
  C1 does not hold of the code. The \<open>catch\<close> around the call of the service reads
  \<open>(err as Error).message\<close> off what it caught, which is whatever the call rejected with,
  and nothing catches what this read throws. A service that rejects with \<open>undefined\<close> or
  with \<open>null\<close> makes the read throw a \<open>TypeError\<close>, and \<open>reviewChunk\<close> rejects with it
  where the claim has it return a result. A service that rejects with the string
  \<open>quota exceeded\<close> gets the summary \<open>Copilot unavailable: undefined\<close>, which does not
  hold the reason of the failure. Only for an object with a \<open>message\<close>, such as an
  \<open>Error\<close>, is the result the one that the claim describes.
\<close>

theorem reviewChunk_throws_on_nullish_rejection:
  "ask (copilotRejecting JUndefined) (buildPrompt ToString_examples general chunkLogin) None () =
     (Inl JUndefined, ()) \<and>
   fst (reviewChunk JSON_parse_examples ToString_examples (copilotRejecting JUndefined) chunkLogin
          general None ()) = Inl TypeError \<and>
   fst (reviewChunk JSON_parse_examples ToString_examples (copilotRejecting JNull) chunkLogin
          general None ()) = Inl TypeError \<and>
   fst (reviewChunk JSON_parse_examples ToString_examples
          (copilotRejecting (JString (js ''quota exceeded''))) chunkLogin general None ()) =
     Inr (reviewOfLogin (JArray []) (JString (js ''Copilot unavailable: undefined''))
            (JString (js ''low''))) \<and>
   fst (reviewChunk JSON_parse_examples ToString_examples (copilotRejecting errorQuota) chunkLogin
          general None ()) =
     Inr (reviewOfLogin (JArray []) (JString (js ''Copilot unavailable: quota exceeded''))
            (JString (js ''low'')))"
  using review_rejected review_rejected_string review_rejected_nullish
  by (simp add: ask_rejecting)

text \<open>
  C8, as the claim states it, fails: the code has no check of the parsed value against the
  schema. The response \<open>42\<close> is valid JSON and not the required object; \<open>JSON.parse\<close>
  returns the number, its three fields are \<open>undefined\<close>, and the result has no suggestion
  and the empty summary, not the one finding with the raw text.
\<close>

theorem reviewChunk_parse_failure_counterexample:
  "ask (copilotAnswering responseNumber) (buildPrompt ToString_examples general chunkLogin) None () =
     (Inr responseNumber, ()) \<and>
   responseNumber = js ''42'' \<and>
   JSON_parse_examples (stripCodeFences responseNumber) = Some (JNumber (Fin 42)) \<and>
   fst (reviewChunk JSON_parse_examples ToString_examples (copilotAnswering responseNumber)
          chunkLogin general None ()) =
     Inr (reviewOfLogin (JArray []) (JString []) (JString (js ''low'')))"
  by (simp add: ask_answering review_number strip_responseNumber JSON_parse_examples_values)
     (simp add: responseNumber_def)

text \<open>
  C8, amended. Whenever the call of the service in \<open>reviewChunk\<close> succeeds and
  \<open>JSON.parse\<close> throws on the response with its code fence stripped, or returns \<open>null\<close>,
  the result has exactly one suggestion, an \<open>info\<close> finding at the start line of the chunk
  whose message is the raw response, the summary
  \<open>Review completed (unstructured response)\<close> and the risk level \<open>low\<close>.
\<close>

theorem reviewChunk_parse_failure:
  assumes "ask copilot (buildPrompt toStr reviewMode chunk) modelId s = (Inr rawResponse, s')"
    and "JSON_parse (stripCodeFences rawResponse) = None \<or>
         JSON_parse (stripCodeFences rawResponse) = Some JNull"
  shows "\<exists>r. fst (reviewChunk JSON_parse toStr copilot chunk reviewMode modelId s) = Inr r \<and>
           suggestions r =
             JArray [JObject [(js ''line'', JNumber (startLine chunk)),
                              (js ''severity'', JString (js ''info'')),
                              (js ''message'', JString rawResponse)]] \<and>
           summary r = JString (js ''Review completed (unstructured response)'') \<and>
           riskLevel r = JString (js ''low'')"
  using assms by (auto simp: reviewChunk_answered fallbackResult_def)

theorem reviewChunk_parse_failure_witness:
  "ask (copilotAnswering responseProse) (buildPrompt ToString_examples general chunkLogin) None () =
     (Inr responseProse, ()) \<and>
   JSON_parse_examples (stripCodeFences responseProse) = None \<and>
   fst (reviewChunk JSON_parse_examples ToString_examples (copilotAnswering responseProse)
          chunkLogin general None ()) =
     Inr (reviewOfLogin
            (JArray [JObject [(js ''line'', JNumber (Fin 1)),
                              (js ''severity'', JString (js ''info'')),
                              (js ''message'', JString responseProse)]])
            (JString (js ''Review completed (unstructured response)''))
            (JString (js ''low'')))"
proof -
  have a: "ask (copilotAnswering responseProse) (buildPrompt ToString_examples general chunkLogin)
             None () = (Inr responseProse, ())"
    by (rule ask_answering)
  have p: "JSON_parse_examples (stripCodeFences responseProse) = None \<or>
           JSON_parse_examples (stripCodeFences responseProse) = Some JNull"
    by (simp add: strip_responseProse JSON_parse_examples_prose)
  show ?thesis
    using a p review_prose
      reviewChunk_parse_failure [where JSON_parse = JSON_parse_examples
        and toStr = ToString_examples
        and copilot = "copilotAnswering responseProse" and chunk = chunkLogin
        and reviewMode = general and modelId = None and s = "()" and s' = "()"
        and rawResponse = responseProse, OF a p]
    by (simp add: strip_responseProse JSON_parse_examples_prose)
qed

text \<open>
  Where the two patterns that strip the code fence leave the response as it is, the
  fields of the JSON object come back as they are: for every such response that, but for
  white space around it, is a JSON object with a string \<open>summary\<close>, a string
  \<open>riskLevel\<close> and an array \<open>suggestions\<close>, the result of \<open>reviewChunk\<close> has these
  three values.
\<close>

lemma round_trip_without_fence:
  assumes "ask copilot (buildPrompt toStr reviewMode chunk) modelId s = (Inr rawResponse, s')"
    and "stripClosingFence (stripOpeningFence True rawResponse) = rawResponse"
    and "JSON_parse (trim rawResponse) = Some (JObject props)"
    and "map_of props (js ''summary'') = Some (JString sm)"
    and "map_of props (js ''riskLevel'') = Some (JString rl)"
    and "map_of props (js ''suggestions'') = Some (JArray sg)"
  shows "\<exists>r. fst (reviewChunk JSON_parse toStr copilot chunk reviewMode modelId s) = Inr r \<and>
           summary r = JString sm \<and> riskLevel r = JString rl \<and> suggestions r = JArray sg"
proof -
  have "stripCodeFences rawResponse = trim rawResponse"
    using assms(2) by (simp add: stripCodeFences_def)
  then show ?thesis
    using assms(1,3-)
    by (simp add: reviewChunk_answered getProp_def nullish_def del: of_char_Char)
qed

text \<open>
  C9 does not hold of the code. The comment of the source says what the two replacements
  are for: \<open>Strip markdown code fences if present\<close>. Both patterns have the \<open>m\<close> flag,
  so \<open>^\<close> and \<open>$\<close> hold at every line terminator inside the text as well, and the
  line separator U+2028 is one that a JSON string may hold as it is. The response below
  is exactly a well-formed JSON object of the required form and has no code fence; its
  summary is three backquotes followed by U+2028. The second pattern deletes the
  backquotes, and the summary of the result is the line separator alone, not the summary
  of the object.
\<close>

theorem reviewChunk_round_trip_fence_in_string:
  "ask (copilotAnswering responseFenceInString) (buildPrompt ToString_examples general chunkLogin)
     None () = (Inr responseFenceInString, ()) \<and>
   JSON_parse_examples responseFenceInString = Some (JObject parsedFenceInString) \<and>
   map_of parsedFenceInString (js ''summary'') = Some (JString (js ''```'' @ [8232])) \<and>
   map_of parsedFenceInString (js ''riskLevel'') = Some (JString (js ''low'')) \<and>
   map_of parsedFenceInString (js ''suggestions'') = Some (JArray []) \<and>
   stripCodeFences responseFenceInString = responseFenceStripped \<and>
   fst (reviewChunk JSON_parse_examples ToString_examples (copilotAnswering responseFenceInString)
          chunkLogin general None ()) =
     Inr (reviewOfLogin (JArray []) (JString [8232]) (JString (js ''low''))) \<and>
   summary (reviewOfLogin (JArray []) (JString [8232]) (JString (js ''low''))) \<noteq>
     JString (js ''```'' @ [8232])"
  by (simp add: ask_answering review_fence_in_string JSON_parse_examples_values
        strip_responseFenceInString)
     (simp add: parsedFenceInString_def reviewOfLogin_def)

section \<open>Properties of the deep analysis engine\<close>

text \<open>
  C10. In \<open>computeMetrics\<close>, when the list of changed files is not empty and every
  changed file is a test file (its path ends in \<open>.test\<close> or \<open>.spec\<close> and one of the
  extensions \<open>ts\<close>, \<open>tsx\<close>, \<open>js\<close>, \<open>jsx\<close>, or has a segment \<open>/test/\<close> or \<open>/tests/\<close>),
  so that no file is left that is not a test, the test coverage is \<open>excellent\<close>: the
  ratio is taken to be 1 when the count of the other files is 0.
\<close>

theorem computeMetrics_only_tests:
  "changedFiles \<noteq> [] \<Longrightarrow>
   list_all (\<lambda>f. testFile (ChangedFile.filePath f)) changedFiles \<Longrightarrow>
   testCoverage (computeMetrics cs changedFiles) = excellent"
proof -
  assume ne: "changedFiles \<noteq> []"
    and all: "list_all (\<lambda>f. testFile (ChangedFile.filePath f)) changedFiles"
  from ne all have ex: "list_ex (\<lambda>f. testFile (ChangedFile.filePath f)) changedFiles"
    by (cases changedFiles) simp_all
  from all have "filter (\<lambda>f. testFile (ChangedFile.filePath f)) changedFiles = changedFiles"
    by (simp add: list_all_iff)
  with ex show ?thesis
    by (simp add: computeMetrics_def Let_def)
qed

theorem computeMetrics_only_tests_witness:
  "testFileOnly \<noteq> [] \<and>
   list_all (\<lambda>f. testFile (ChangedFile.filePath f)) testFileOnly \<and>
   testCoverage (computeMetrics [] testFileOnly) = excellent"
proof -
  have h1: "testFileOnly \<noteq> []"
    by (simp add: testFileOnly_def)
  have h2: "list_all (\<lambda>f. testFile (ChangedFile.filePath f)) testFileOnly"
    by (simp add: testFileOnly_def testFile_def string_eval)
  show ?thesis
    using h1 h2 computeMetrics_only_tests [OF h1 h2, of "[]"] by simp
qed

lemma computeMetrics_empty: "computeMetrics [] [] = metricsEmpty"
  by (simp add: computeMetrics_def metricsEmpty_def)

lemmas value_eval = parseE_def bindE_def try_catch_def getProp_def nullish_def ToNumber_def
  Math_max_def Math_min_def clampScore_def arrayMap_def validateGrade_def toUpperCase_def
  getModelName_def

lemma compareOne_categories:
  "compareOne JSON_parse_examples toNum toStr (copilotAnswering responseCategories) 1 [] [] general
     (js ''m'') () = (Inr reportCompared, ())"
  by (simp add: compareOne_def Let_def copilotAnswering_def strip_responseCategories
        JSON_parse_examples_values computeMetrics_empty parsedCategories_def reportCompared_def
        value_eval ascii_codes del: of_char_Char)

lemma analyze_categories:
  "DeepAnalysisEngine_analyze JSON_parse_examples toNum toStr (copilotAnswering responseCategories)
     1 [] [] general () = (Inr reportAnalyzed, ())"
  by (simp add: DeepAnalysisEngine_analyze_def Let_def copilotAnswering_def
        strip_responseCategories JSON_parse_examples_values computeMetrics_empty
        parsedCategories_def reportAnalyzed_def value_eval mapCategory_def
        mapRecommendation_def ascii_codes del: of_char_Char)

text \<open>
  \<open>analyze\<close> keeps every score in range. A value is numeric or missing when it is
  \<open>undefined\<close>, \<open>null\<close> or a number other than \<open>NaN\<close> (\<open>JSON.parse\<close> gives no \<open>NaN\<close>).
  When the complexity score and the scores of the categories of the response are numeric
  or missing, the complexity score and every category score of the report are from 0 to
  100, whether the decoding succeeds or ends in its \<open>catch\<close> branch, and the grade is one
  of the five.
\<close>

lemma clampScore_range:
  assumes "v = JUndefined \<or> v = JNull \<or> (\<exists>n. v = JNumber n \<and> n \<noteq> NaN)"
  shows "\<exists>q. clampScore toNum v = Fin q \<and> 0 \<le> q \<and> q \<le> 100"
proof -
  have num: "\<exists>q. Math_min (Fin 100) (Math_max (Fin 0) n) = Fin q \<and> 0 \<le> q \<and> q \<le> 100"
    if "n \<noteq> NaN" for n
    using that by (cases n) (auto simp: Math_min_def Math_max_def)
  from assms show ?thesis
    using num by (auto simp: clampScore_def nullish_def ToNumber_def)
qed

lemma validateGrade_valid:
  "validateGrade g = Inr x \<Longrightarrow> x \<in> set [js ''A'', js ''B'', js ''C'', js ''D'', js ''F'']"
  by (auto simp: validateGrade_def Let_def split: jsval.splits if_splits)

lemma validateGrade_missing: "validateGrade JUndefined = Inr (js ''C'')"
  by (simp add: validateGrade_def nullish_def toUpperCase_def)

lemma mapCategory_clamps:
  assumes "mapCategory toNum c = Inr c'"
    and "getProp c (js ''score'') = Inr v"
    and "v = JUndefined \<or> v = JNull \<or> (\<exists>n. v = JNumber n \<and> n \<noteq> NaN)"
  shows "\<exists>q. getProp c' (js ''score'') = Inr (JNumber (Fin q)) \<and> 0 \<le> q \<and> q \<le> 100"
proof -
  obtain q where q: "clampScore toNum v = Fin q" "0 \<le> q" "q \<le> 100"
    using clampScore_range [OF assms(3)] by blast
  from assms(1,2) have "getProp c' (js ''score'') = Inr (JNumber (clampScore toNum v))"
    by (auto simp: mapCategory_def bindE_def getProp_def split: sum.splits jsval.splits)
  with q show ?thesis by simp
qed


lemma bindE_Inr: "bindE m f = Inr r \<Longrightarrow> \<exists>v. m = Inr v \<and> f v = Inr r"
  by (cases m) (simp_all add: bindE_def)

lemma analyze_grade_valid:
  assumes "fst (DeepAnalysisEngine_analyze JSON_parse toNum toStr copilot pr cs changedFiles
                 reviewMode s) = Inr r"
  shows "qualityGrade r \<in> set [js ''A'', js ''B'', js ''C'', js ''D'', js ''F'']"
proof -
  obtain answer s' where a:
    "ask copilot (buildDeepAnalysisPrompt (buildDiffSummary toStr cs) (computeMetrics cs changedFiles)
       reviewMode) None s = (answer, s')"
    by (cases "ask copilot (buildDeepAnalysisPrompt (buildDiffSummary toStr cs)
       (computeMetrics cs changedFiles) reviewMode) None s")
  show ?thesis
  proof (cases answer)
    case (Inl err)
    with a assms show ?thesis
      by (auto simp: DeepAnalysisEngine_analyze_def Let_def fallbackAnalysis_def dest!: bindE_Inr)
  next
    case (Inr rawResponse)
    with a assms show ?thesis
      unfolding DeepAnalysisEngine_analyze_def Let_def try_catch_def
      by (auto split: sum.splits dest!: bindE_Inr dest: validateGrade_valid)
  qed
qed


lemma mapE_Inr: "mapE f xs = Inr ys \<Longrightarrow> list_all2 (\<lambda>x y. f x = Inr y) xs ys"
proof (induction xs arbitrary: ys)
  case Nil
  then show ?case by simp
next
  case (Cons x xs)
  then show ?case
    by (auto dest!: bindE_Inr)
qed

lemma arrayMap_categories_clamp:
  assumes "arrayMap (mapCategory toNum) v = Inr w"
    and "\<And>xs c u. v = JArray xs \<Longrightarrow> c \<in> set xs \<Longrightarrow> getProp c (js ''score'') = Inr u \<Longrightarrow>
           u = JUndefined \<or> u = JNull \<or> (\<exists>n. u = JNumber n \<and> n \<noteq> NaN)"
  shows "\<exists>ys. w = JArray ys \<and>
           (\<forall>c' \<in> set ys. \<exists>q. getProp c' (js ''score'') = Inr (JNumber (Fin q)) \<and> 0 \<le> q \<and> q \<le> 100)"
proof -
  from assms(1) obtain xs' ys where v: "v = JArray xs'" and m: "mapE (mapCategory toNum) xs' = Inr ys"
    and w: "w = JArray ys"
    by (auto simp: arrayMap_def split: jsval.splits dest!: bindE_Inr)
  have all2: "list_all2 (\<lambda>x y. mapCategory toNum x = Inr y) xs' ys"
    using m by (rule mapE_Inr)
  have "\<exists>q. getProp c' (js ''score'') = Inr (JNumber (Fin q)) \<and> 0 \<le> q \<and> q \<le> 100"
    if "c' \<in> set ys" for c'
  proof -
    from that obtain i where i: "i < length ys" "c' = ys ! i"
      by (auto simp: in_set_conv_nth)
    define c where "c = xs' ! i"
    have c: "c \<in> set xs'" "mapCategory toNum c = Inr c'"
      using list_all2_nthD2 [OF all2 i(1)] list_all2_lengthD [OF all2] i
      by (simp_all add: c_def)
    from c(2) obtain u where u: "getProp c (js ''score'') = Inr u"
      by (auto simp: mapCategory_def dest!: bindE_Inr)
    show ?thesis
      using mapCategory_clamps [OF c(2) u] assms(2) [OF v c(1) u] by blast
  qed
  with w show ?thesis by blast
qed


lemma analyze_scores_in_range:
  assumes res: "fst (DeepAnalysisEngine_analyze JSON_parse toNum toStr copilot pr cs changedFiles
                      reviewMode s) = Inr r"
    and answer: "ask copilot (buildDeepAnalysisPrompt (buildDiffSummary toStr cs)
                   (computeMetrics cs changedFiles) reviewMode) None s = (Inr rawResponse, s')"
    and parsed: "JSON_parse (stripCodeFences rawResponse) = Some parsed"
    and complexity: "\<And>u. getProp parsed (js ''complexityScore'') = Inr u \<Longrightarrow>
           u = JUndefined \<or> u = JNull \<or> (\<exists>n. u = JNumber n \<and> n \<noteq> NaN)"
    and scores: "\<And>v xs c u. getProp parsed (js ''categories'') = Inr v \<Longrightarrow>
           nullish v (JArray []) = JArray xs \<Longrightarrow> c \<in> set xs \<Longrightarrow>
           getProp c (js ''score'') = Inr u \<Longrightarrow>
           u = JUndefined \<or> u = JNull \<or> (\<exists>n. u = JNumber n \<and> n \<noteq> NaN)"
  shows "(\<exists>q. complexityScore r = Fin q \<and> 0 \<le> q \<and> q \<le> 100) \<and>
         qualityGrade r \<in> set [js ''A'', js ''B'', js ''C'', js ''D'', js ''F''] \<and>
         (\<exists>ys. categories r = JArray ys \<and>
            (\<forall>c' \<in> set ys. \<exists>q. getProp c' (js ''score'') = Inr (JNumber (Fin q)) \<and>
                                 0 \<le> q \<and> q \<le> 100))"
proof -
  let ?body =
    "bindE (parseE JSON_parse (stripCodeFences rawResponse)) (\<lambda>parsed.
     bindE (getProp parsed (js ''overallSummary'')) (\<lambda>parsed_overallSummary.
     bindE (getProp parsed (js ''complexityScore'')) (\<lambda>parsed_complexityScore.
     bindE (getProp parsed (js ''qualityGrade'')) (\<lambda>parsed_qualityGrade.
     bindE (validateGrade parsed_qualityGrade) (\<lambda>grade.
     bindE (getProp parsed (js ''categories'')) (\<lambda>parsed_categories.
     bindE (arrayMap (mapCategory toNum) (nullish parsed_categories (JArray []))) (\<lambda>cats.
     bindE (getProp parsed (js ''recommendations'')) (\<lambda>parsed_recommendations.
     bindE (arrayMap mapRecommendation (nullish parsed_recommendations (JArray []))) (\<lambda>recs.
       Inr \<lparr>prNumber = pr,
            overallSummary = nullish parsed_overallSummary (JString (js ''Analysis completed.'')),
            complexityScore = clampScore toNum parsed_complexityScore,
            qualityGrade = grade,
            categories = cats,
            recommendations = recs,
            metrics = computeMetrics cs changedFiles,
            modelUsed = getModelName copilot s'\<rparr>)))))))))"
  have unfolded:
    "fst (DeepAnalysisEngine_analyze JSON_parse toNum toStr copilot pr cs changedFiles reviewMode s) =
     try_catch ?body
       (\<lambda>e. Inr \<lparr>prNumber = pr,
                  overallSummary = JString (take 500 rawResponse),
                  complexityScore = Fin 50,
                  qualityGrade = js ''C'',
                  categories = JArray [],
                  recommendations = JArray [],
                  metrics = computeMetrics cs changedFiles,
                  modelUsed = getModelName copilot s'\<rparr>)"
    using answer by (simp add: DeepAnalysisEngine_analyze_def Let_def del: of_char_Char)
  show ?thesis
  proof (cases ?body)
    case (Inl e)
    with res unfolded show ?thesis
      by (auto simp: try_catch_def)
  next
    case (Inr r')
    with res unfolded have rr: "r' = r"
      by (simp add: try_catch_def)
    from Inr [unfolded rr] obtain u g v cats where
      u: "getProp parsed (js ''complexityScore'') = Inr u" and
      g: "validateGrade g = Inr (qualityGrade r)" and
      v: "getProp parsed (js ''categories'') = Inr v" and
      cats: "arrayMap (mapCategory toNum) (nullish v (JArray [])) = Inr cats" and
      r: "complexityScore r = clampScore toNum u" "categories r = cats"
      using parsed by (auto simp: parseE_def dest!: bindE_Inr)
    have c1: "\<exists>q. complexityScore r = Fin q \<and> 0 \<le> q \<and> q \<le> 100"
      using clampScore_range [OF complexity [OF u]] r(1) by simp
    have c2: "qualityGrade r \<in> set [js ''A'', js ''B'', js ''C'', js ''D'', js ''F'']"
      using g by (rule validateGrade_valid)
    have c3: "\<exists>ys. categories r = JArray ys \<and>
            (\<forall>c' \<in> set ys. \<exists>q. getProp c' (js ''score'') = Inr (JNumber (Fin q)) \<and>
                                 0 \<le> q \<and> q \<le> 100)"
      using arrayMap_categories_clamp [OF cats scores [OF v]] r(2) by simp
    from c1 c2 c3 show ?thesis by blast
  qed
qed

text \<open>
  C2 does not hold of the code: \<open>compareWithModels\<close> clamps the complexity score and
  validates the grade, and passes the categories of the response on as they are, where
  \<open>analyze\<close> maps every category and clamps its score (\<open>analyze_scores_in_range\<close>). For
  the response with one category of score 500 the report of the comparison has the score
  500, and the report of \<open>analyze\<close> has 100.
\<close>

theorem compareWithModels_category_score_not_clamped:
  "JSON_parse_examples (stripCodeFences responseCategories) = Some (JObject parsedCategories) \<and>
   fst (compareWithModels JSON_parse_examples toNum toStr (copilotAnswering responseCategories)
          1 [] [] general [js ''m''] ()) = Inr [reportCompared] \<and>
   categories reportCompared =
     JArray [JObject [(js ''name'', JString (js ''Security'')), (js ''score'', JNumber (Fin 500))]] \<and>
   fst (DeepAnalysisEngine_analyze JSON_parse_examples toNum toStr
          (copilotAnswering responseCategories) 1 [] [] general ()) = Inr reportAnalyzed \<and>
   categories reportAnalyzed =
     JArray [JObject [(js ''name'', JString (js ''Security'')),
                      (js ''score'', JNumber (Fin 100)),
                      (js ''findings'', JArray []),
                      (js ''severity'', JString (js ''acceptable''))]]"
  using compareOne_categories [of toNum toStr] analyze_categories [of toNum toStr]
  by (simp add: strip_responseCategories JSON_parse_examples_values)
     (simp add: reportCompared_def reportAnalyzed_def)

end
